theory Spec2Isabelle
  imports Complex_Main
begin

section \<open>The ZeroTouch workflow hook: step sequencer and human-approval gate\<close>

text \<open>
  This theory embeds the React hook \<open>useZeroTouchWorkflow\<close> (the variant that calls the
  Launch IO agent backend) together with the constants of \<open>data/mockData.ts\<close> and the types of
  \<open>types/zerotouch.ts\<close>.

  The hook keeps two pieces of React state (\<open>state\<close> and \<open>pendingApproval\<close>) and one ref
  (\<open>timeoutRef\<close>). Its functions are asynchronous: they suspend at every \<open>await\<close> and are
  resumed later by the JavaScript event loop. The embedding makes this explicit:

  \<^item> the synchronous stretch of code between two suspension points is a HOL function from
    machine to machine (functional \<open>setState\<close> updates are applied in program order);
  \<^item> a suspended async function is a \<open>task\<close> value recording where it waits and which
    variables its closure holds;
  \<^item> an armed \<open>setTimeout\<close> callback of the approval gate is an entry of \<open>timers\<close>;
  \<^item> the event loop is the function \<open>step\<close>, which runs one event (a call from the user
    interface, a timer firing, or a suspended task being resumed with the value it awaited).

  Values that come from outside (\<open>Date.now()\<close>, \<open>Math.random()\<close>, backend responses) are
  inputs of the event. Functional updates (\<open>setState(prev => ...)\<close>) read the state as it is
  when the event runs. What a function reads through its closure is the value of the render in
  which the function was created: \<open>handleApproval\<close> tests the \<open>pendingApproval\<close> of that
  render and searches its \<open>state.agents\<close>, and \<open>executeStep\<close> searches the \<open>state.agents\<close>
  of the render in which the async function that calls it was created; these values are
  arguments of the functions and are carried in the tasks. A render is taken to happen between
  two events, so the handler of the latest render holds the current values; a handler kept from
  an earlier render is a separate event. Toast notifications and console output do not feed back
  into the state and are left out. Timestamps (\<open>new Date().toISOString()\<close>) are kept as the
  millisecond clock value they render.
\<close>

subsection \<open>JavaScript values received from the backend\<close>

datatype json =
    JUndefined
  | JNull
  | JBool bool
  | JNum real
  | JStr string
  | JArr "json list"
  | JObj "(string \<times> json) list"

text \<open>Truthiness as used by \<open>if (x)\<close>, \<open>!x\<close> and \<open>x || y\<close>.\<close>

fun truthy :: "json \<Rightarrow> bool" where
  "truthy JUndefined = False"
| "truthy JNull = False"
| "truthy (JBool b) = b"
| "truthy (JNum x) = (x \<noteq> 0)"
| "truthy (JStr s) = (s \<noteq> [])"
| "truthy (JArr xs) = True"
| "truthy (JObj kvs) = True"

fun nullish :: "json \<Rightarrow> bool" where
  "nullish JUndefined = True"
| "nullish JNull = True"
| "nullish (JBool b) = False"
| "nullish (JNum x) = False"
| "nullish (JStr s) = False"
| "nullish (JArr xs) = False"
| "nullish (JObj kvs) = False"

text \<open>\<open>!x\<close>.\<close>

definition falsy :: "json \<Rightarrow> bool" where
  "falsy x = (\<not> truthy x)"

text \<open>\<open>typeof x === 'object'\<close> for a truthy \<open>x\<close>, and \<open>typeof x !== 'object'\<close>.\<close>

fun is_object :: "json \<Rightarrow> bool" where
  "is_object (JArr xs) = True"
| "is_object (JObj kvs) = True"
| "is_object JUndefined = False"
| "is_object JNull = False"
| "is_object (JBool b) = False"
| "is_object (JNum x) = False"
| "is_object (JStr s) = False"

definition not_object :: "json \<Rightarrow> bool" where
  "not_object x = (\<not> is_object x)"

text \<open>Property read \<open>x.k\<close> on a value that is neither \<open>null\<close> nor \<open>undefined\<close>
  (object keys are taken to be distinct).\<close>

fun get_prop :: "json \<Rightarrow> string \<Rightarrow> json" where
  "get_prop (JObj kvs) k = (case map_of kvs k of Some v \<Rightarrow> v | None \<Rightarrow> JUndefined)"
| "get_prop JUndefined k = JUndefined"
| "get_prop JNull k = JUndefined"
| "get_prop (JBool b) k = JUndefined"
| "get_prop (JNum x) k = JUndefined"
| "get_prop (JStr s) k = JUndefined"
| "get_prop (JArr xs) k = JUndefined"

text \<open>Index read \<open>x[0]\<close> on a value that is neither \<open>null\<close> nor \<open>undefined\<close>.\<close>

fun get_first :: "json \<Rightarrow> json" where
  "get_first (JArr xs) = (case xs of [] \<Rightarrow> JUndefined | x # rest \<Rightarrow> x)"
| "get_first (JObj kvs) = (case map_of kvs ''0'' of Some v \<Rightarrow> v | None \<Rightarrow> JUndefined)"
| "get_first (JStr s) = (case s of [] \<Rightarrow> JUndefined | c # rest \<Rightarrow> JStr [c])"
| "get_first JUndefined = JUndefined"
| "get_first JNull = JUndefined"
| "get_first (JBool b) = JUndefined"
| "get_first (JNum x) = JUndefined"

text \<open>Optional chaining \<open>x?.k\<close> and \<open>x?.[0]\<close>.\<close>

definition opt_prop :: "json \<Rightarrow> string \<Rightarrow> json" where
  "opt_prop x k = (if nullish x then JUndefined else get_prop x k)"

definition opt_first :: "json \<Rightarrow> json" where
  "opt_first x = (if nullish x then JUndefined else get_first x)"

text \<open>\<open>x || y\<close>.\<close>

definition js_or :: "json \<Rightarrow> json \<Rightarrow> json" where
  "js_or x y = (if truthy x then x else y)"

text \<open>Decimal rendering of a clock value inside a template literal.\<close>

function number_toString :: "int \<Rightarrow> string" where
  "number_toString n =
     (if n < 0 then CHR ''-'' # number_toString (- n)
      else if n < 10 then [char_of (48 + n)]
      else number_toString (n div 10) @ [char_of (48 + n mod 10)])"
  by pat_completeness auto
termination
  by (relation "measure (\<lambda>n. if n < 0 then nat (- n) + 1 else nat n)") auto

declare number_toString.simps [simp del]

subsection \<open>Data model (\<open>types/zerotouch.ts\<close>)\<close>

datatype AgentType = Sentinel | Simulator | Negotiator | Executor | Audit

datatype AgentStatus = Idle | Processing | Success | Error | Waiting

record Agent =
  agent_id :: string
  agent_name :: string
  agent_type :: AgentType
  agent_status :: AgentStatus
  agent_description :: string
  agent_tools :: "string list"
  agent_confidence :: json
  agent_lastUpdate :: "int option"

datatype ToolCallStatus = CallPending | CallSuccess | CallError

record ToolCall =
  call_id :: string
  call_agentId :: string
  call_toolName :: string
  call_parameters :: json
  call_result :: json
  call_timestamp :: int
  call_duration :: "int option"
  call_status :: ToolCallStatus

datatype PortStatus = Normal | Congested | Strike | Reroute

datatype CraneActivity = Low | Medium | High

record PortData =
  port_name :: string
  port_code :: string
  port_coordinates :: "real \<times> real"
  port_status :: PortStatus
  port_containers :: int
  port_congestionScore :: "real option"
  port_craneActivity :: "CraneActivity option"

record Metrics =
  costSavings :: json
  carbonReduction :: real
  humanLaborSaved :: real
  timeToResolution :: real

text \<open>The optional fields \<open>simulation\<close>, \<open>negotiation\<close> and \<open>blockchain\<close> of
  \<open>WorkflowState\<close> are never written by the hook and are left out.\<close>

record WorkflowState =
  currentStep :: nat
  totalSteps :: nat
  isRunning :: bool
  startTime :: "int option"
  endTime :: "int option"
  agents :: "Agent list"
  toolCalls :: "ToolCall list"
  ports :: "PortData list"
  metrics :: Metrics

datatype ApprovalStatus = Pending | Approved | Rejected | Timeout

record ApprovalRequest =
  approval_id :: string
  approval_message :: string
  requestedBy :: string
  approval_timestamp :: int
  approval_timeout :: int
  approval_status :: ApprovalStatus

record WorkflowStep =
  step_number :: nat
  step_title :: string
  step_description :: string
  step_agent :: AgentType
  step_tool :: string
  expectedDuration :: nat

subsection \<open>Constants (\<open>data/mockData.ts\<close>)\<close>

definition MOCK_AGENTS :: "Agent list" where
  "MOCK_AGENTS =
    [ \<lparr> agent_id = ''sentinel-001'', agent_name = ''Watchtower'', agent_type = Sentinel,
        agent_status = Idle,
        agent_description = ''Real-time anomaly detection and threat monitoring'',
        agent_tools = [''analyze_satellite_imagery'', ''monitor_darkweb'', ''scan_iot_sensors'',
                       ''detect_anomalies''],
        agent_confidence = JNum 0, agent_lastUpdate = None \<rparr>,
      \<lparr> agent_id = ''simulator-001'', agent_name = ''Oracle'', agent_type = Simulator,
        agent_status = Idle,
        agent_description = ''Impact forecasting and scenario modeling'',
        agent_tools = [''run_monte_carlo'', ''calculate_carbon_impact'', ''forecast_demand'',
                       ''analyze_alternatives''],
        agent_confidence = JNum 0, agent_lastUpdate = None \<rparr>,
      \<lparr> agent_id = ''negotiator-001'', agent_name = ''Diplomat'', agent_type = Negotiator,
        agent_status = Idle,
        agent_description = ''Autonomous contracting and deal optimization'',
        agent_tools = [''negotiate_terms'', ''request_human_approval'', ''analyze_carrier_rates'',
                       ''optimize_contracts''],
        agent_confidence = JNum 0, agent_lastUpdate = None \<rparr>,
      \<lparr> agent_id = ''executor-001'', agent_name = ''Commander'', agent_type = Executor,
        agent_status = Idle,
        agent_description = ''System implementation and logistics execution'',
        agent_tools = [''reroute_shipments'', ''update_erp'', ''coordinate_carriers'',
                       ''manage_inventory''],
        agent_confidence = JNum 0, agent_lastUpdate = None \<rparr>,
      \<lparr> agent_id = ''audit-001'', agent_name = ''Guardian'', agent_type = Audit,
        agent_status = Idle,
        agent_description = ''Immutable verification and compliance logging'',
        agent_tools = [''log_to_blockchain'', ''generate_compliance_report'',
                       ''verify_transactions'', ''audit_trail''],
        agent_confidence = JNum 0, agent_lastUpdate = None \<rparr> ]"

definition MOCK_PORTS :: "PortData list" where
  "MOCK_PORTS =
    [ \<lparr> port_name = ''Port of Los Angeles'', port_code = ''LAX'',
        port_coordinates = (33.7, -118.2), port_status = Normal, port_containers = 420,
        port_congestionScore = Some 0.15, port_craneActivity = Some High \<rparr>,
      \<lparr> port_name = ''Port of Oakland'', port_code = ''OAK'',
        port_coordinates = (37.8, -122.3), port_status = Normal, port_containers = 180,
        port_congestionScore = Some 0.05, port_craneActivity = Some Medium \<rparr>,
      \<lparr> port_name = ''Port of Vancouver'', port_code = ''VAN'',
        port_coordinates = (49.3, -123.1), port_status = Normal, port_containers = 240,
        port_congestionScore = Some 0.08, port_craneActivity = Some Medium \<rparr>,
      \<lparr> port_name = ''Port of Seattle'', port_code = ''SEA'',
        port_coordinates = (47.6, -122.3), port_status = Normal, port_containers = 160,
        port_congestionScore = Some 0.03, port_craneActivity = Some Low \<rparr> ]"

text \<open>Only the first route is read by the hook (\<open>MOCK_ROUTES[0]\<close>), as a plain object.\<close>

definition MOCK_ROUTES :: "json list" where
  "MOCK_ROUTES =
    [ JObj [(''fromPort'', JStr ''LAX''), (''toPort'', JStr ''OAK''), (''cost'', JNum 15200),
            (''delay'', JNum 48), (''carbonImpact'', JNum (-42)), (''probability'', JNum 0.89)],
      JObj [(''fromPort'', JStr ''LAX''), (''toPort'', JStr ''VAN''), (''cost'', JNum 21800),
            (''delay'', JNum 72), (''carbonImpact'', JNum (-58)), (''probability'', JNum 0.76)],
      JObj [(''fromPort'', JStr ''LAX''), (''toPort'', JStr ''SEA''), (''cost'', JNum 18900),
            (''delay'', JNum 56), (''carbonImpact'', JNum (-35)), (''probability'', JNum 0.82)] ]"

definition WORKFLOW_STEPS :: "WorkflowStep list" where
  "WORKFLOW_STEPS =
    [ \<lparr> step_number = 1, step_title = ''Threat Detection'',
        step_description = ''Sentinel detects LA port congestion via satellite imagery'',
        step_agent = Sentinel, step_tool = ''analyze_satellite_imagery'',
        expectedDuration = 45 \<rparr>,
      \<lparr> step_number = 2, step_title = ''Impact Analysis'',
        step_description = ''Simulator runs Monte Carlo analysis for optimal routing'',
        step_agent = Simulator, step_tool = ''run_monte_carlo'', expectedDuration = 30 \<rparr>,
      \<lparr> step_number = 3, step_title = ''Contract Negotiation'',
        step_description = ''Negotiator secures carrier capacity and terms'',
        step_agent = Negotiator, step_tool = ''negotiate_terms'', expectedDuration = 45 \<rparr>,
      \<lparr> step_number = 4, step_title = ''Human Approval'',
        step_description = ''Request approval for rerouting decision'',
        step_agent = Negotiator, step_tool = ''request_human_approval'',
        expectedDuration = 60 \<rparr>,
      \<lparr> step_number = 5, step_title = ''Execution'',
        step_description = ''Executor reroutes containers and updates systems'',
        step_agent = Executor, step_tool = ''reroute_shipments'', expectedDuration = 30 \<rparr>,
      \<lparr> step_number = 6, step_title = ''Audit & Compliance'',
        step_description = ''Audit logs to blockchain and generates reports'',
        step_agent = Audit, step_tool = ''log_to_blockchain'', expectedDuration = 20 \<rparr> ]"

subsection \<open>Outside inputs of an event\<close>

text \<open>\<open>now\<close> is the value of \<open>Date.now()\<close> while the event runs (an integer number of
  milliseconds), \<open>rnd\<close> the string
  \<open>Math.random().toString(36).substr(2, 9)\<close>.\<close>

record env =
  now :: int
  rnd :: string

text \<open>What \<open>supabase.functions.invoke\<close> settles with: the promise rejects, or it resolves
  with the pair \<open>{ data, error }\<close>.\<close>

datatype invoke_outcome = Rejects | Resolves json json

subsection \<open>The React state of the hook\<close>

text \<open>The value passed to \<open>useState\<close> and again to \<open>setState\<close> in \<open>resetWorkflow\<close>.\<close>

definition initialState :: WorkflowState where
  "initialState =
     \<lparr> currentStep = 0, totalSteps = length WORKFLOW_STEPS, isRunning = False,
       startTime = None, endTime = None, agents = MOCK_AGENTS, toolCalls = [],
       ports = MOCK_PORTS,
       metrics = \<lparr> costSavings = JNum 0, carbonReduction = 0, humanLaborSaved = 0,
                   timeToResolution = 0 \<rparr> \<rparr>"

text \<open>\<open>Partial<Agent>\<close> and \<open>Partial<ToolCall>\<close> as the hook uses them: the fields an
  update object may carry.\<close>

record AgentUpdates =
  upd_status :: "AgentStatus option"
  upd_confidence :: "json option"
  upd_lastUpdate :: "int option"

record ToolCallUpdates =
  upd_result :: "json option"
  upd_call_status :: "ToolCallStatus option"
  upd_duration :: "int option"

definition spreadAgent :: "Agent \<Rightarrow> AgentUpdates \<Rightarrow> Agent" where
  "spreadAgent agent updates =
     agent \<lparr> agent_status := (case upd_status updates of Some s \<Rightarrow> s | None \<Rightarrow> agent_status agent),
             agent_confidence :=
               (case upd_confidence updates of Some c \<Rightarrow> c | None \<Rightarrow> agent_confidence agent),
             agent_lastUpdate :=
               (case upd_lastUpdate updates of Some t \<Rightarrow> Some t | None \<Rightarrow> agent_lastUpdate agent) \<rparr>"

definition updateAgent :: "string \<Rightarrow> AgentUpdates \<Rightarrow> WorkflowState \<Rightarrow> WorkflowState" where
  "updateAgent agentId updates prev =
     prev \<lparr> agents :=
              map (\<lambda>agent. if agent_id agent = agentId then spreadAgent agent updates else agent)
                  (agents prev) \<rparr>"

text \<open>\<open>addToolCall\<close> stamps the call with the current time; the \<open>call_timestamp\<close> of
  its argument is not read.\<close>

definition addToolCall :: "env \<Rightarrow> ToolCall \<Rightarrow> WorkflowState \<Rightarrow> WorkflowState" where
  "addToolCall e toolCall prev =
     (let newToolCall = toolCall \<lparr> call_timestamp := now e \<rparr>
      in prev \<lparr> toolCalls := toolCalls prev @ [newToolCall] \<rparr>)"

definition spreadToolCall :: "ToolCall \<Rightarrow> ToolCallUpdates \<Rightarrow> ToolCall" where
  "spreadToolCall call updates =
     call \<lparr> call_result := (case upd_result updates of Some r \<Rightarrow> r | None \<Rightarrow> call_result call),
            call_status :=
              (case upd_call_status updates of Some s \<Rightarrow> s | None \<Rightarrow> call_status call),
            call_duration :=
              (case upd_duration updates of Some d \<Rightarrow> Some d | None \<Rightarrow> call_duration call) \<rparr>"

definition updateToolCall :: "string \<Rightarrow> ToolCallUpdates \<Rightarrow> WorkflowState \<Rightarrow> WorkflowState" where
  "updateToolCall cid updates prev =
     prev \<lparr> toolCalls :=
              map (\<lambda>call. if call_id call = cid then spreadToolCall call updates else call)
                  (toolCalls prev) \<rparr>"

subsection \<open>\<open>getMockResultForTool\<close>\<close>

definition getMockResultForTool :: "string \<Rightarrow> json" where
  "getMockResultForTool toolName =
     (if toolName = ''analyze_satellite_imagery'' then
        JObj [(''congestion_score'', JNum 0.92), (''crane_activity'', JStr ''low''),
              (''confidence'', JNum 0.89), (''containers_detected'', JNum 420),
              (''strike_indicators'', JBool True)]
      else if toolName = ''run_monte_carlo'' then
        JObj [(''optimal_route'', (case MOCK_ROUTES of [] \<Rightarrow> JUndefined | r # rest \<Rightarrow> r)),
              (''cost_savings'', JNum 2100000),
              (''delay_analysis'', JObj [(''expected'', JNum 48), (''variance'', JNum 12)]),
              (''scenarios_tested'', JNum 10000), (''confidence'', JNum 0.87)]
      else if toolName = ''negotiate_terms'' then
        JObj [(''carrier'', JStr ''Maersk''), (''original_rate'', JNum 17000),
              (''negotiated_rate'', JNum 15200), (''discount'', JNum 0.12),
              (''terms'', JArr [JStr ''Priority loading'', JStr ''48h SLA'',
                                JStr ''Real-time tracking'']),
              (''success'', JBool True)]
      else if toolName = ''reroute_shipments'' then
        JObj [(''rerouted_containers'', JArr [JStr ''CTN-7843'', JStr ''CTN-7844'', JStr ''CTN-7845'']),
              (''destination'', JStr ''Port of Oakland''), (''eta'', JStr ''2024-07-22T14:30:00Z''),
              (''tracking_ids'', JArr [JStr ''TRK-001'', JStr ''TRK-002'', JStr ''TRK-003''])]
      else if toolName = ''log_to_blockchain'' then
        JObj [(''transaction_hash'', JStr ''0x89b2f3e8c1d4a567890123456789abcdef123456''),
              (''block_number'', JNum 18745623), (''gas_used'', JNum 52341),
              (''confirmed'', JBool True)]
      else JObj [(''success'', JBool True), (''data'', JObj [])])"

subsection \<open>\<open>callLaunchIOAgent\<close>\<close>

text \<open>Up to the \<open>await\<close>: the call is logged as pending and the agent set to processing.
  The function returns the call id and the clock value \<open>startTime\<close> with the new state.\<close>

definition callLaunchIOAgent_call ::
  "env \<Rightarrow> string \<Rightarrow> string \<Rightarrow> json \<Rightarrow> WorkflowState \<Rightarrow> (string \<times> int) \<times> WorkflowState" where
  "callLaunchIOAgent_call e agentId toolName parameters s =
     (let callId = ''call-'' @ number_toString (now e) @ ''-'' @ rnd e;
          s1 = addToolCall e
                 \<lparr> call_id = callId, call_agentId = agentId, call_toolName = toolName,
                   call_parameters = parameters, call_result = JUndefined,
                   call_timestamp = 0, call_duration = None, call_status = CallPending \<rparr> s;
          s2 = updateAgent agentId
                 \<lparr> upd_status = Some Processing, upd_confidence = None, upd_lastUpdate = None \<rparr> s1
      in ((callId, now e), s2))"

text \<open>The \<open>catch\<close> block.\<close>

definition callLaunchIOAgent_catch ::
  "env \<Rightarrow> string \<Rightarrow> string \<Rightarrow> string \<Rightarrow> WorkflowState \<Rightarrow> WorkflowState" where
  "callLaunchIOAgent_catch e callId agentId toolName s =
     (let mockResult = getMockResultForTool toolName;
          s1 = updateToolCall callId
                 \<lparr> upd_result = Some mockResult, upd_call_status = Some CallSuccess,
                   upd_duration = Some 2000 \<rparr> s
      in updateAgent agentId
           \<lparr> upd_status = Some Success,
             upd_confidence = Some (js_or (get_prop mockResult ''confidence'') (JNum 0.75)),
             upd_lastUpdate = Some (now e) \<rparr> s1)"

text \<open>From the \<open>await\<close> on. A rejected promise, a truthy \<open>error\<close> (rethrown) and a
  \<open>data\<close> that is \<open>null\<close> or \<open>undefined\<close> (reading \<open>data.result\<close> throws) all reach the
  \<open>catch\<close> block. The duration is the difference of two clock readings; the source subtracts
  them as doubles, which is this exact difference as long as the readings are less than
  \<open>2^53\<close> ms apart (some 285,000 years), as is taken for granted here.\<close>

definition callLaunchIOAgent_settled ::
  "env \<Rightarrow> string \<Rightarrow> string \<Rightarrow> string \<Rightarrow> int \<Rightarrow> invoke_outcome \<Rightarrow> WorkflowState \<Rightarrow> WorkflowState" where
  "callLaunchIOAgent_settled e callId agentId toolName startTime' outcome s =
     (case outcome of
        Rejects \<Rightarrow> callLaunchIOAgent_catch e callId agentId toolName s
      | Resolves data err \<Rightarrow>
          if truthy err then callLaunchIOAgent_catch e callId agentId toolName s
          else if nullish data then callLaunchIOAgent_catch e callId agentId toolName s
          else
            (let duration = now e - startTime';
                 result0 = get_prop data ''result'';
                 result = (if falsy result0 \<or> not_object result0
                           then getMockResultForTool toolName else result0);
                 s1 = updateToolCall callId
                        \<lparr> upd_result = Some result, upd_call_status = Some CallSuccess,
                          upd_duration = Some duration \<rparr> s
             in updateAgent agentId
                  \<lparr> upd_status = Some Success,
                    upd_confidence = Some (js_or (get_prop result ''confidence'') (JNum 0.85)),
                    upd_lastUpdate = Some (now e) \<rparr> s1))"

subsection \<open>The hook as a machine\<close>

text \<open>The two loops that call \<open>executeStep\<close>: the one of \<open>startWorkflow\<close> and the one of
  \<open>handleApproval\<close>.\<close>

datatype loop_kind = StartLoop | ApprovalLoop

text \<open>A suspended async function. Each task carries the \<open>agents\<close> array its
  \<open>executeStep\<close> closure holds; a task inside the loop carries the loop index, and a task
  inside \<open>callLaunchIOAgent\<close> also its \<open>callId\<close>, \<open>agentId\<close>, \<open>toolName\<close> and
  \<open>startTime\<close>.\<close>

datatype task =
    AwaitWorkflowInit "Agent list"
  | AwaitAnalysis "Agent list"
  | AwaitAgentCall loop_kind "Agent list" nat string string string int
  | AwaitDelay loop_kind "Agent list" nat

text \<open>\<open>timers\<close> holds the armed approval timeouts (handle and the \<open>agent.id\<close> the
  callback closes over); \<open>timeoutRef\<close> is the ref, which keeps the last handle also after the
  timer has fired or was cleared.\<close>

record machine =
  state :: WorkflowState
  pendingApproval :: "ApprovalRequest option"
  timeoutRef :: "nat option"
  timers :: "(nat \<times> string) list"
  nextTimer :: nat
  tasks :: "task list"

definition initialMachine :: machine where
  "initialMachine =
     \<lparr> state = initialState, pendingApproval = None, timeoutRef = None, timers = [],
       nextTimer = 1, tasks = [] \<rparr>"

definition clearTimeout :: "nat option \<Rightarrow> (nat \<times> string) list \<Rightarrow> (nat \<times> string) list" where
  "clearTimeout ref ts =
     (case ref of None \<Rightarrow> ts | Some h \<Rightarrow> filter (\<lambda>t. fst t \<noteq> h) ts)"

definition stepParameters :: "AgentType \<Rightarrow> json" where
  "stepParameters a =
     JObj [(''coordinates'',
              if a = Sentinel
              then JStr (''33.7'' @ [CHR 0xC2, CHR 0xB0] @ ''N, 118.2'' @ [CHR 0xC2, CHR 0xB0] @ ''W'')
              else JUndefined),
           (''containers'', if a = Simulator then JNum 150 else JUndefined),
           (''carrier'', if a = Negotiator then JStr ''Maersk'' else JUndefined),
           (''container_ids'', if a = Executor then JArr [JStr ''CTN-7843''] else JUndefined),
           (''action'',
              if a = Audit
              then JObj [(''type'', JStr ''reroute''), (''data'', JStr ''container logistics'')]
              else JUndefined)]"

text \<open>\<open>executeStep\<close> up to its first suspension. It either returns (unknown step, no agent
  of the step's type, or the approval step, which opens the request, arms the timer and
  returns), or it is suspended inside \<open>callLaunchIOAgent\<close>.\<close>

datatype exec_result = Returned | Calling string string string int

definition executeStep :: "env \<Rightarrow> Agent list \<Rightarrow> nat \<Rightarrow> machine \<Rightarrow> exec_result \<times> machine" where
  "executeStep e closureAgents stepIndex m =
     (if \<not> stepIndex < length WORKFLOW_STEPS then (Returned, m)
      else
        (let step = WORKFLOW_STEPS ! stepIndex in
         case find (\<lambda>a. agent_type a = step_agent step) closureAgents of
           None \<Rightarrow> (Returned, m)
         | Some agent \<Rightarrow>
             (let s1 = (state m) \<lparr> currentStep := stepIndex + 1 \<rparr> in
              if step_tool step = ''request_human_approval'' then
                (let approvalRequest =
                       \<lparr> approval_id = ''approval-'' @ number_toString (now e),
                         approval_message = ''Approve Oakland reroute for 150 containers?'',
                         requestedBy = agent_id agent,
                         approval_timestamp = now e,
                         approval_timeout = 300000,
                         approval_status = Pending \<rparr>;
                     s2 = updateAgent (agent_id agent)
                            \<lparr> upd_status = Some Waiting, upd_confidence = None,
                              upd_lastUpdate = None \<rparr> s1
                 in (Returned,
                     m \<lparr> state := s2,
                         pendingApproval := Some approvalRequest,
                         timers := timers m @ [(nextTimer m, agent_id agent)],
                         timeoutRef := Some (nextTimer m),
                         nextTimer := nextTimer m + 1 \<rparr>))
              else
                (case callLaunchIOAgent_call e (agent_id agent) (step_tool step)
                        (stepParameters (step_agent step)) s1 of
                   ((callId, t0), s2) \<Rightarrow>
                     (Calling callId (agent_id agent) (step_tool step) t0, m \<lparr> state := s2 \<rparr>)))))"

text \<open>The rest of \<open>executeStep\<close> after \<open>callLaunchIOAgent\<close> has returned: the metrics
  bound to the step index.\<close>

definition stepMetrics :: "nat \<Rightarrow> WorkflowState \<Rightarrow> WorkflowState" where
  "stepMetrics stepIndex s =
     (let s1 = (if stepIndex = 1
                then s \<lparr> metrics := (metrics s) \<lparr> costSavings := JNum 2100000,
                                                  carbonReduction := 42 \<rparr> \<rparr>
                else s)
      in if stepIndex = 4
         then s1 \<lparr> metrics := (metrics s1) \<lparr> humanLaborSaved := 18.7 \<rparr> \<rparr>
         else s1)"

text \<open>The timer callback of the approval step.\<close>

definition timeoutCallback :: "string \<Rightarrow> machine \<Rightarrow> machine" where
  "timeoutCallback agentId m =
     m \<lparr> pendingApproval :=
           (case pendingApproval m of
              Some prev \<Rightarrow> Some (prev \<lparr> approval_status := Timeout \<rparr>)
            | None \<Rightarrow> None),
         state := updateAgent agentId
                    \<lparr> upd_status = Some Error, upd_confidence = None, upd_lastUpdate = None \<rparr>
                    (state m) \<rparr>"

text \<open>The block \<open>// Complete workflow\<close>, which both loops run after their last
  iteration.\<close>

definition completeWorkflow :: "env \<Rightarrow> machine \<Rightarrow> machine" where
  "completeWorkflow e m =
     m \<lparr> state := (state m) \<lparr> isRunning := False, endTime := Some (now e),
                              metrics := (metrics (state m)) \<lparr> timeToResolution := 4.2 \<rparr> \<rparr> \<rparr>"

text \<open>The loop body after \<open>await executeStep(i)\<close>: \<open>startWorkflow\<close> waits 1500 ms unless
  step \<open>i\<close> is the approval step, where it returns; \<open>handleApproval\<close> always waits.\<close>

definition afterStep :: "loop_kind \<Rightarrow> Agent list \<Rightarrow> nat \<Rightarrow> machine \<Rightarrow> machine" where
  "afterStep k closureAgents i m =
     (case k of
        StartLoop \<Rightarrow>
          if step_tool (WORKFLOW_STEPS ! i) \<noteq> ''request_human_approval''
          then m \<lparr> tasks := tasks m @ [AwaitDelay StartLoop closureAgents i] \<rparr>
          else m
      | ApprovalLoop \<Rightarrow> m \<lparr> tasks := tasks m @ [AwaitDelay ApprovalLoop closureAgents i] \<rparr>)"

text \<open>The loop head at index \<open>i\<close>, run until the async function suspends or ends.\<close>

definition runLoop :: "env \<Rightarrow> loop_kind \<Rightarrow> Agent list \<Rightarrow> nat \<Rightarrow> machine \<Rightarrow> machine" where
  "runLoop e k closureAgents i m =
     (if i < length WORKFLOW_STEPS then
        (case executeStep e closureAgents i m of
           (Returned, m1) \<Rightarrow> afterStep k closureAgents i m1
         | (Calling callId agentId toolName t0, m1) \<Rightarrow>
             m1 \<lparr> tasks := tasks m1 @ [AwaitAgentCall k closureAgents i callId agentId toolName t0] \<rparr>)
      else completeWorkflow e m)"

subsection \<open>The functions the hook returns\<close>

definition startWorkflow :: "env \<Rightarrow> machine \<Rightarrow> machine" where
  "startWorkflow e m =
     (let s1 = (state m) \<lparr> isRunning := True, startTime := Some (now e), currentStep := 0,
                            toolCalls := [],
                            agents := map (\<lambda>agent. agent \<lparr> agent_status := Idle,
                                                            agent_confidence := JNum 0 \<rparr>)
                                          MOCK_AGENTS \<rparr>;
          s2 = s1 \<lparr> ports := map (\<lambda>port. if port_code port = ''LAX''
                                          then port \<lparr> port_status := Strike,
                                                      port_congestionScore := Some 0.92 \<rparr>
                                          else port)
                                  (ports s1) \<rparr>
      in m \<lparr> state := s2, tasks := tasks m @ [AwaitWorkflowInit (agents (state m))] \<rparr>)"

text \<open>\<open>startWorkflow\<close> after the second backend call has resolved.\<close>

definition analysisMetrics :: "json \<Rightarrow> json \<Rightarrow> WorkflowState \<Rightarrow> WorkflowState" where
  "analysisMetrics analysisData analysisError s =
     (if falsy analysisError \<and> truthy (opt_prop analysisData ''analysis'') then
        s \<lparr> metrics := (metrics s)
              \<lparr> costSavings :=
                  js_or (opt_prop (opt_first (get_prop (get_prop analysisData ''analysis'')
                                                       ''recommendations''))
                                  ''expected_savings'')
                        (JNum 0),
                carbonReduction := 42 \<rparr> \<rparr>
      else s)"

text \<open>\<open>handleApproval\<close> as created in a render in which \<open>pendingApproval\<close> was
  \<open>closureApproval\<close> and \<open>state.agents\<close> was \<open>closureAgents\<close>: the guard and the search
  for the requesting agent read these, and so does the \<open>executeStep\<close> the loop calls.\<close>

definition handleApproval ::
  "env \<Rightarrow> bool \<Rightarrow> ApprovalRequest option \<Rightarrow> Agent list \<Rightarrow> machine \<Rightarrow> machine" where
  "handleApproval e approved closureApproval closureAgents m =
     (case closureApproval of
        None \<Rightarrow> m
      | Some request \<Rightarrow>
          (let ts = clearTimeout (timeoutRef m) (timers m);
               s1 = (case find (\<lambda>a. agent_id a = requestedBy request) closureAgents of
                       Some agent \<Rightarrow>
                         updateAgent (agent_id agent)
                           \<lparr> upd_status = Some (if approved then Success else Error),
                             upd_confidence = None, upd_lastUpdate = None \<rparr> (state m)
                     | None \<Rightarrow> state m);
               m1 = m \<lparr> state := s1, pendingApproval := None, timers := ts \<rparr>
           in if approved then runLoop e ApprovalLoop closureAgents 4 m1
              else m1 \<lparr> state := s1 \<lparr> isRunning := False, endTime := Some (now e) \<rparr> \<rparr>))"

definition resetWorkflow :: "machine \<Rightarrow> machine" where
  "resetWorkflow m =
     m \<lparr> timers := clearTimeout (timeoutRef m) (timers m),
         state := \<lparr> currentStep = 0, totalSteps = length WORKFLOW_STEPS, isRunning = False,
                    startTime = None, endTime = None, agents = MOCK_AGENTS, toolCalls = [],
                    ports = MOCK_PORTS,
                    metrics = \<lparr> costSavings = JNum 0, carbonReduction = 0, humanLaborSaved = 0,
                                timeToResolution = 0 \<rparr> \<rparr>,
         pendingApproval := None \<rparr>"

subsection \<open>The event loop\<close>

text \<open>What a suspended task is resumed with.\<close>

datatype response = Invoked invoke_outcome | Elapsed

text \<open>Resuming a task (already taken out of \<open>tasks\<close>) with the value it awaited; \<open>None\<close>
  when the task does not await that kind of value.\<close>

fun resume :: "env \<Rightarrow> task \<Rightarrow> response \<Rightarrow> machine \<Rightarrow> machine option" where
  "resume e (AwaitWorkflowInit c) (Invoked Rejects) m = Some (runLoop e StartLoop c 0 m)"
| "resume e (AwaitWorkflowInit c) (Invoked (Resolves workflowData workflowError)) m =
     Some (m \<lparr> tasks := tasks m @ [AwaitAnalysis c] \<rparr>)"
| "resume e (AwaitAnalysis c) (Invoked Rejects) m = Some (runLoop e StartLoop c 0 m)"
| "resume e (AwaitAnalysis c) (Invoked (Resolves analysisData analysisError)) m =
     Some (runLoop e StartLoop c 0
             (m \<lparr> state := analysisMetrics analysisData analysisError (state m) \<rparr>))"
| "resume e (AwaitAgentCall k c i callId agentId toolName t0) (Invoked outcome) m =
     Some (afterStep k c i
             (m \<lparr> state := stepMetrics i
                             (callLaunchIOAgent_settled e callId agentId toolName t0 outcome
                                (state m)) \<rparr>))"
| "resume e (AwaitDelay k c i) Elapsed m = Some (runLoop e k c (i + 1) m)"
| "resume e (AwaitWorkflowInit c) Elapsed m = None"
| "resume e (AwaitAnalysis c) Elapsed m = None"
| "resume e (AwaitAgentCall k c i callId agentId toolName t0) Elapsed m = None"
| "resume e (AwaitDelay k c i) (Invoked outcome) m = None"

text \<open>The events. \<open>StartWorkflow\<close>, \<open>HandleApproval\<close> and \<open>ResetWorkflow\<close> are calls of
  the functions of the latest render. \<open>HandleApprovalStale approved p c\<close> is a call of a
  \<open>handleApproval\<close> kept from an earlier render, in which \<open>pendingApproval\<close> was \<open>p\<close> and
  \<open>state.agents\<close> was \<open>c\<close> (the approval dialog keeps the handler it was rendered with while
  it animates out, and any caller may keep a reference).\<close>

datatype event =
    StartWorkflow
  | HandleApproval bool
  | HandleApprovalStale bool "ApprovalRequest option" "Agent list"
  | ResetWorkflow
  | TimerFires nat
  | TaskSettles nat response

text \<open>One turn of the event loop; \<open>None\<close> when the event cannot happen in this machine (the
  timer is not armed, there is no such task, or the task awaits something else).\<close>

definition step :: "env \<Rightarrow> event \<Rightarrow> machine \<Rightarrow> machine option" where
  "step e ev m =
     (case ev of
        StartWorkflow \<Rightarrow> Some (startWorkflow e m)
      | HandleApproval approved \<Rightarrow>
          Some (handleApproval e approved (pendingApproval m) (agents (state m)) m)
      | HandleApprovalStale approved p c \<Rightarrow> Some (handleApproval e approved p c m)
      | ResetWorkflow \<Rightarrow> Some (resetWorkflow m)
      | TimerFires h \<Rightarrow>
          (case map_of (timers m) h of
             None \<Rightarrow> None
           | Some agentId \<Rightarrow>
               Some (timeoutCallback agentId
                       (m \<lparr> timers := filter (\<lambda>t. fst t \<noteq> h) (timers m) \<rparr>)))
      | TaskSettles n r \<Rightarrow>
          (if n < length (tasks m)
           then resume e (tasks m ! n) r
                  (m \<lparr> tasks := take n (tasks m) @ drop (Suc n) (tasks m) \<rparr>)
           else None))"

text \<open>A sequence of events, each with its outside inputs.\<close>

fun run :: "(env \<times> event) list \<Rightarrow> machine \<Rightarrow> machine option" where
  "run [] m = Some m"
| "run ((e, ev) # rest) m = (case step e ev m of None \<Rightarrow> None | Some m1 \<Rightarrow> run rest m1)"

subsection \<open>Notions used to state the properties\<close>

text \<open>The invocation throws inside the \<open>try\<close> block: the promise rejected (a network
  error), the backend answered with an error (a non-2xx status), or there is no response body
  to read the result from.\<close>

fun invoke_throws :: "invoke_outcome \<Rightarrow> bool" where
  "invoke_throws Rejects = True"
| "invoke_throws (Resolves data err) = (truthy err \<or> nullish data)"

text \<open>The invocation failed: it throws, or the response is malformed, that is, its
  \<open>result\<close> is missing or is not an object.\<close>

fun invoke_failed :: "invoke_outcome \<Rightarrow> bool" where
  "invoke_failed Rejects = True"
| "invoke_failed (Resolves data err) =
     (truthy err \<or> nullish data \<or> falsy (get_prop data ''result'') \<or>
      not_object (get_prop data ''result''))"

text \<open>An orderly session: \<open>start()\<close> and \<open>reset()\<close> are called only while the run is not
  running (the dashboard disables both buttons while \<open>state.isRunning\<close> holds), and every
  decision is taken through the handler of the latest render. Timers and settling promises are
  not restricted. The hook itself does not enforce any of this: its functions can be called at
  any time, and a handler of an earlier render can still be called.\<close>

fun orderly :: "event \<Rightarrow> machine \<Rightarrow> bool" where
  "orderly StartWorkflow m = (\<not> isRunning (state m))"
| "orderly ResetWorkflow m = (\<not> isRunning (state m))"
| "orderly (HandleApproval approved) m = True"
| "orderly (HandleApprovalStale approved p c) m = False"
| "orderly (TimerFires h) m = True"
| "orderly (TaskSettles n r) m = True"

text \<open>Like \<open>run\<close>, but an event that is not orderly ends the session with \<open>None\<close>.\<close>

fun run_orderly :: "(env \<times> event) list \<Rightarrow> machine \<Rightarrow> machine option" where
  "run_orderly [] m = Some m"
| "run_orderly ((e, ev) # rest) m =
     (if orderly ev m
      then (case step e ev m of None \<Rightarrow> None | Some m1 \<Rightarrow> run_orderly rest m1)
      else None)"

text \<open>The machines an orderly session can be in.\<close>

inductive reachable :: "machine \<Rightarrow> bool" where
  reachable_init: "reachable initialMachine"
| reachable_step: "reachable m \<Longrightarrow> orderly ev m \<Longrightarrow> step e ev m = Some m1 \<Longrightarrow> reachable m1"

text \<open>The five roles are present in canonical order.\<close>

definition roster_ok :: "Agent list \<Rightarrow> bool" where
  "roster_ok as = (map agent_type as = [Sentinel, Simulator, Negotiator, Executor, Audit])"

text \<open>Every logged tool call has been completed.\<close>

definition callsDone :: "ToolCall list \<Rightarrow> bool" where
  "callsDone cs = list_all (\<lambda>c. call_status c = CallSuccess) cs"

text \<open>The number of agent calls made once \<open>currentStep\<close> has reached \<open>n\<close>: one per step
  started, except for the approval step (the fourth), which makes none.\<close>

definition callsLogged :: "nat \<Rightarrow> nat" where
  "callsLogged n = (if n \<le> 3 then n else n - 1)"

text \<open>What holds of the state while a task is suspended.\<close>

fun task_inv :: "machine \<Rightarrow> task \<Rightarrow> bool" where
  "task_inv m (AwaitWorkflowInit c) =
     (roster_ok c \<and> currentStep (state m) = 0 \<and> toolCalls (state m) = [])"
| "task_inv m (AwaitAnalysis c) =
     (roster_ok c \<and> currentStep (state m) = 0 \<and> toolCalls (state m) = [])"
| "task_inv m (AwaitAgentCall k c i callId agentId toolName t0) =
     (roster_ok c \<and> i < 6 \<and> i \<noteq> 3 \<and> ((k = StartLoop) = (i < 3)) \<and>
      currentStep (state m) = i + 1 \<and>
      length (toolCalls (state m)) = callsLogged (i + 1) \<and>
      callsDone (butlast (toolCalls (state m))) \<and>
      call_id (last (toolCalls (state m))) = callId)"
| "task_inv m (AwaitDelay k c i) =
     (roster_ok c \<and> i < 6 \<and> i \<noteq> 3 \<and> ((k = StartLoop) = (i < 3)) \<and>
      currentStep (state m) = i + 1 \<and>
      length (toolCalls (state m)) = callsLogged (i + 1) \<and>
      callsDone (toolCalls (state m)))"

text \<open>The invariant of orderly sessions: at most one async function is in flight; while one
  is, the run is running and no approval is open; while none is, the run is either not running
  or waits at the approval step; a timer is armed only for an open request, and it is the one
  \<open>timeoutRef\<close> holds.\<close>

definition session_inv :: "machine \<Rightarrow> bool" where
  "session_inv m =
     (roster_ok (agents (state m)) \<and>
      (case tasks m of
         [] \<Rightarrow>
           callsDone (toolCalls (state m)) \<and>
           (case pendingApproval m of
              None \<Rightarrow> \<not> isRunning (state m)
            | Some request \<Rightarrow>
                isRunning (state m) \<and> currentStep (state m) = 4 \<and>
                length (toolCalls (state m)) = 3)
       | t # rest \<Rightarrow>
           rest = [] \<and> isRunning (state m) \<and> pendingApproval m = None \<and> task_inv m t) \<and>
      (case timers m of
         [] \<Rightarrow> True
       | t # rest \<Rightarrow> rest = [] \<and> timeoutRef m = Some (fst t) \<and> pendingApproval m \<noteq> None))"

subsection \<open>Concrete sessions\<close>

text \<open>A run in which every backend call fails, up to the moment the approval request is
  open.\<close>

definition session_to_approval :: "(env \<times> event) list" where
  "session_to_approval =
     [(\<lparr> now = 0, rnd = ''k3x'' \<rparr>, StartWorkflow),
      (\<lparr> now = 40, rnd = ''k3x'' \<rparr>, TaskSettles 0 (Invoked Rejects)),
      (\<lparr> now = 90, rnd = ''p0q'' \<rparr>, TaskSettles 0 (Invoked Rejects)),
      (\<lparr> now = 1590, rnd = ''m7a'' \<rparr>, TaskSettles 0 Elapsed),
      (\<lparr> now = 1640, rnd = ''zz1'' \<rparr>, TaskSettles 0 (Invoked Rejects)),
      (\<lparr> now = 3140, rnd = ''b2c'' \<rparr>, TaskSettles 0 Elapsed),
      (\<lparr> now = 3190, rnd = ''b2c'' \<rparr>, TaskSettles 0 (Invoked Rejects)),
      (\<lparr> now = 4690, rnd = ''b2c'' \<rparr>, TaskSettles 0 Elapsed)]"

text \<open>The same run, approved after one second and carried to its end ten minutes after the
  start.\<close>

definition session_completed :: "(env \<times> event) list" where
  "session_completed =
     session_to_approval @
     [(\<lparr> now = 5690, rnd = ''d4e'' \<rparr>, HandleApproval True),
      (\<lparr> now = 5740, rnd = ''d4e'' \<rparr>, TaskSettles 0 (Invoked Rejects)),
      (\<lparr> now = 7240, rnd = ''f5g'' \<rparr>, TaskSettles 0 Elapsed),
      (\<lparr> now = 7290, rnd = ''f5g'' \<rparr>, TaskSettles 0 (Invoked Rejects)),
      (\<lparr> now = 600000, rnd = ''f5g'' \<rparr>, TaskSettles 0 Elapsed)]"

text \<open>The run with no decision: the approval timer (handle 1) fires after five minutes.\<close>

definition session_timed_out :: "(env \<times> event) list" where
  "session_timed_out =
     session_to_approval @ [(\<lparr> now = 304690, rnd = ''h6i'' \<rparr>, TimerFires 1)]"

text \<open>A run that is reset while the first agent call is in flight.\<close>

definition session_reset_in_flight :: "(env \<times> event) list" where
  "session_reset_in_flight =
     [(\<lparr> now = 0, rnd = ''k3x'' \<rparr>, StartWorkflow),
      (\<lparr> now = 40, rnd = ''k3x'' \<rparr>, TaskSettles 0 (Invoked Rejects)),
      (\<lparr> now = 60, rnd = ''k3x'' \<rparr>, ResetWorkflow)]"

text \<open>The run up to the moment its first agent call is in flight.\<close>

definition session_call_in_flight :: "(env \<times> event) list" where
  "session_call_in_flight = butlast session_reset_in_flight"

text \<open>The run that is reset while its first agent call is in flight, and then started again.
  The call of the first run settles, its loop waits out the delay and goes on to the next step;
  only then the backend call with which the second run begins settles.\<close>

definition session_restarted :: "(env \<times> event) list" where
  "session_restarted =
     session_reset_in_flight @
     [(\<lparr> now = 80, rnd = ''r9s'' \<rparr>, StartWorkflow),
      (\<lparr> now = 90, rnd = ''p0q'' \<rparr>, TaskSettles 0 (Invoked Rejects)),
      (\<lparr> now = 1590, rnd = ''m7a'' \<rparr>, TaskSettles 1 Elapsed)]"

text \<open>The run that is reset during the delay after its third step, one event before the
  approval step: the loop is still in flight, and when the delay has elapsed it opens the
  approval request in the reset state.\<close>

definition session_reset_before_approval :: "(env \<times> event) list" where
  "session_reset_before_approval =
     butlast session_to_approval @
     [(\<lparr> now = 4000, rnd = ''t1u'' \<rparr>, ResetWorkflow),
      (\<lparr> now = 4690, rnd = ''b2c'' \<rparr>, TaskSettles 0 Elapsed)]"

text \<open>The machine a session ends in (the initial machine when an event could not happen).\<close>

definition machine_after :: "(env \<times> event) list \<Rightarrow> machine" where
  "machine_after tr = (case run tr initialMachine of Some m \<Rightarrow> m | None \<Rightarrow> initialMachine)"

section \<open>Verified properties\<close>

subsection \<open>Basic facts about the constants and the state updates\<close>

lemma length_WORKFLOW_STEPS: "length WORKFLOW_STEPS = 6"
  by (simp add: WORKFLOW_STEPS_def)

lemma small_index_cases: "i < 6 \<Longrightarrow> i = 0 \<or> i = 1 \<or> i = 2 \<or> i = 3 \<or> i = 4 \<or> i = (5::nat)"
  by arith

lemma approval_step_index:
  "i < 6 \<Longrightarrow> (step_tool (WORKFLOW_STEPS ! i) = ''request_human_approval'') = (i = 3)"
  using small_index_cases [of i] by (auto simp: WORKFLOW_STEPS_def)

lemma roster_find:
  "roster_ok c \<Longrightarrow> \<exists>a. find (\<lambda>a. agent_type a = t) c = Some a"
  by (cases t) (auto simp: roster_ok_def map_eq_Cons_conv)

lemma agent_type_spread: "agent_type (spreadAgent a u) = agent_type a"
  by (simp add: spreadAgent_def)

lemma types_after_update:
  "map agent_type (map (\<lambda>a. if agent_id a = x then spreadAgent a u else a) as) = map agent_type as"
  by (induction as) (simp_all add: agent_type_spread)

lemma agents_updateAgent:
  "agents (updateAgent x u s) = map (\<lambda>a. if agent_id a = x then spreadAgent a u else a) (agents s)"
  by (simp add: updateAgent_def)

lemma roster_updateAgent: "roster_ok (agents (updateAgent x u s)) = roster_ok (agents s)"
  unfolding roster_ok_def by (simp only: agents_updateAgent types_after_update)

lemma updateAgent_fields:
  "currentStep (updateAgent x u s) = currentStep s"
  "toolCalls (updateAgent x u s) = toolCalls s"
  "isRunning (updateAgent x u s) = isRunning s"
  "startTime (updateAgent x u s) = startTime s"
  "endTime (updateAgent x u s) = endTime s"
  "metrics (updateAgent x u s) = metrics s"
  "ports (updateAgent x u s) = ports s"
  by (simp_all add: updateAgent_def)

lemma updateToolCall_fields:
  "currentStep (updateToolCall x u s) = currentStep s"
  "agents (updateToolCall x u s) = agents s"
  "isRunning (updateToolCall x u s) = isRunning s"
  "startTime (updateToolCall x u s) = startTime s"
  "endTime (updateToolCall x u s) = endTime s"
  "toolCalls (updateToolCall x u s) =
     map (\<lambda>call. if call_id call = x then spreadToolCall call u else call) (toolCalls s)"
  by (simp_all add: updateToolCall_def)

lemma stepMetrics_fields:
  "currentStep (stepMetrics i s) = currentStep s"
  "agents (stepMetrics i s) = agents s"
  "isRunning (stepMetrics i s) = isRunning s"
  "startTime (stepMetrics i s) = startTime s"
  "endTime (stepMetrics i s) = endTime s"
  "toolCalls (stepMetrics i s) = toolCalls s"
  by (simp_all add: stepMetrics_def Let_def)

lemma analysisMetrics_fields:
  "currentStep (analysisMetrics d err s) = currentStep s"
  "agents (analysisMetrics d err s) = agents s"
  "isRunning (analysisMetrics d err s) = isRunning s"
  "startTime (analysisMetrics d err s) = startTime s"
  "endTime (analysisMetrics d err s) = endTime s"
  "toolCalls (analysisMetrics d err s) = toolCalls s"
  by (simp_all add: analysisMetrics_def)

lemma clearTimeout_idem: "clearTimeout r (clearTimeout r ts) = clearTimeout r ts"
  by (cases r) (simp_all add: clearTimeout_def)

lemma map_of_cleared: "map_of (filter (\<lambda>t. fst t \<noteq> h) ts) h = None"
  by (induction ts) auto

subsection \<open>Settling an agent call\<close>

text \<open>Whatever the backend answers, the call is marked as a success and the agent too.\<close>

lemma settled_shape:
  "\<exists>r d conf.
     callLaunchIOAgent_settled e cid aid tool t0 out s =
       updateAgent aid \<lparr> upd_status = Some Success, upd_confidence = Some conf,
                          upd_lastUpdate = Some (now e) \<rparr>
         (updateToolCall cid \<lparr> upd_result = Some r, upd_call_status = Some CallSuccess,
                                upd_duration = Some d \<rparr> s)"
  by (cases out) (auto simp: callLaunchIOAgent_settled_def callLaunchIOAgent_catch_def Let_def)

text \<open>A failed invocation: the call gets the canned result of its tool, whichever of the
  two paths substitutes it.\<close>

lemma settled_failed_shape:
  assumes "invoke_failed out"
  shows "callLaunchIOAgent_settled e cid aid tool t0 out s =
     updateAgent aid
       \<lparr> upd_status = Some Success,
         upd_confidence =
           Some (js_or (get_prop (getMockResultForTool tool) ''confidence'')
                       (JNum (if invoke_throws out then 0.75 else 0.85))),
         upd_lastUpdate = Some (now e) \<rparr>
       (updateToolCall cid
          \<lparr> upd_result = Some (getMockResultForTool tool), upd_call_status = Some CallSuccess,
            upd_duration = Some (if invoke_throws out then 2000 else now e - t0) \<rparr> s)"
  using assms
  by (cases out)
     (auto simp: callLaunchIOAgent_settled_def callLaunchIOAgent_catch_def Let_def)

lemma callsDone_after_update:
  assumes "cs \<noteq> []" "callsDone (butlast cs)" "call_id (last cs) = cid"
  shows "callsDone (map (\<lambda>c. if call_id c = cid
                               then spreadToolCall c \<lparr> upd_result = r, upd_call_status = Some CallSuccess,
                                                       upd_duration = d \<rparr>
                               else c) cs)"
proof -
  have split: "cs = butlast cs @ [last cs]" using assms(1) by simp
  have a: "callsDone (map (\<lambda>c. if call_id c = cid
                               then spreadToolCall c \<lparr> upd_result = r, upd_call_status = Some CallSuccess,
                                                       upd_duration = d \<rparr>
                               else c) xs)" if "callsDone xs" for xs
    using that by (induction xs) (auto simp: callsDone_def spreadToolCall_def)
  show ?thesis
    apply (subst split)
    using assms(2,3) a [of "butlast cs"]
    by (simp add: callsDone_def spreadToolCall_def)
qed

lemma settled_fields:
  "currentStep (callLaunchIOAgent_settled e cid aid tool t0 out s) = currentStep s"
  "isRunning (callLaunchIOAgent_settled e cid aid tool t0 out s) = isRunning s"
  "startTime (callLaunchIOAgent_settled e cid aid tool t0 out s) = startTime s"
  "endTime (callLaunchIOAgent_settled e cid aid tool t0 out s) = endTime s"
  "roster_ok (agents (callLaunchIOAgent_settled e cid aid tool t0 out s)) = roster_ok (agents s)"
  "length (toolCalls (callLaunchIOAgent_settled e cid aid tool t0 out s)) = length (toolCalls s)"
  using settled_shape [of e cid aid tool t0 out s]
  by (auto simp: updateAgent_fields updateToolCall_fields roster_updateAgent)

lemma settled_callsDone:
  assumes "toolCalls s \<noteq> []" "callsDone (butlast (toolCalls s))" "call_id (last (toolCalls s)) = cid"
  shows "callsDone (toolCalls (callLaunchIOAgent_settled e cid aid tool t0 out s))"
  using settled_shape [of e cid aid tool t0 out s] callsDone_after_update [OF assms]
  by (auto simp: updateAgent_fields updateToolCall_fields)

lemma find_same_id:
  "find (\<lambda>x. agent_id x = agent_id a)
        (map (\<lambda>x. if agent_id x = agent_id a then spreadAgent x u else x) as)
   = map_option (\<lambda>x. spreadAgent x u) (find (\<lambda>x. agent_id x = agent_id a) as)"
  by (induction as) (simp_all add: spreadAgent_def)

lemma find_in_list: "find P as = Some a \<Longrightarrow> \<exists>b. find (\<lambda>x. agent_id x = agent_id a) as = Some b"
  by (induction as) (auto split: if_splits)

lemma updated_owner:
  assumes "find (\<lambda>x. agent_id x = agent_id a) (agents s) = Some b"
  shows "find (\<lambda>x. agent_id x = agent_id a)
           (agents (updateAgent (agent_id a) u (updateToolCall cid v s))) = Some (spreadAgent b u)"
  using assms by (simp add: agents_updateAgent updateToolCall_fields find_same_id)

lemma updated_last_call:
  assumes "toolCalls s = cs @ [x]" "call_id x = cid"
  shows "toolCalls (updateAgent aid u (updateToolCall cid v s)) \<noteq> []"
    "last (toolCalls (updateAgent aid u (updateToolCall cid v s))) = spreadToolCall x v"
  using assms by (simp_all add: updateAgent_fields updateToolCall_fields)

text \<open>The fallback table at the tools of the five calling steps, and the confidence the
  agent is given from it.\<close>

lemma fallback_table:
  assumes "i < 6" "i \<noteq> 3"
  shows "getMockResultForTool (step_tool (WORKFLOW_STEPS ! i)) =
     (if i = 0 then
        JObj [(''congestion_score'', JNum 0.92), (''crane_activity'', JStr ''low''),
              (''confidence'', JNum 0.89), (''containers_detected'', JNum 420),
              (''strike_indicators'', JBool True)]
      else if i = 1 then
        JObj [(''optimal_route'',
                 JObj [(''fromPort'', JStr ''LAX''), (''toPort'', JStr ''OAK''),
                       (''cost'', JNum 15200), (''delay'', JNum 48),
                       (''carbonImpact'', JNum (-42)), (''probability'', JNum 0.89)]),
              (''cost_savings'', JNum 2100000),
              (''delay_analysis'', JObj [(''expected'', JNum 48), (''variance'', JNum 12)]),
              (''scenarios_tested'', JNum 10000), (''confidence'', JNum 0.87)]
      else if i = 2 then
        JObj [(''carrier'', JStr ''Maersk''), (''original_rate'', JNum 17000),
              (''negotiated_rate'', JNum 15200), (''discount'', JNum 0.12),
              (''terms'', JArr [JStr ''Priority loading'', JStr ''48h SLA'',
                                JStr ''Real-time tracking'']),
              (''success'', JBool True)]
      else if i = 4 then
        JObj [(''rerouted_containers'', JArr [JStr ''CTN-7843'', JStr ''CTN-7844'', JStr ''CTN-7845'']),
              (''destination'', JStr ''Port of Oakland''), (''eta'', JStr ''2024-07-22T14:30:00Z''),
              (''tracking_ids'', JArr [JStr ''TRK-001'', JStr ''TRK-002'', JStr ''TRK-003''])]
      else
        JObj [(''transaction_hash'', JStr ''0x89b2f3e8c1d4a567890123456789abcdef123456''),
              (''block_number'', JNum 18745623), (''gas_used'', JNum 52341),
              (''confirmed'', JBool True)])"
  using small_index_cases [OF assms(1)] assms(2)
  by (auto simp: WORKFLOW_STEPS_def getMockResultForTool_def MOCK_ROUTES_def)

lemma fallback_confidence:
  assumes "i < 6" "i \<noteq> 3"
  shows "js_or (get_prop (getMockResultForTool (step_tool (WORKFLOW_STEPS ! i))) ''confidence'')
               (JNum d) =
         (if i = 0 then JNum 0.89 else if i = 1 then JNum 0.87 else JNum d)"
  using small_index_cases [OF assms(1)] assms(2)
  by (auto simp: fallback_table js_or_def)

subsection \<open>The loop head\<close>

text \<open>At a step that calls an agent the loop logs a pending call, sets the agent to
  processing and suspends inside \<open>callLaunchIOAgent\<close>.\<close>

lemma runLoop_call:
  assumes "i < 6" "i \<noteq> 3" "roster_ok c"
  obtains a x where
    "find (\<lambda>a. agent_type a = step_agent (WORKFLOW_STEPS ! i)) c = Some a"
    "call_status x = CallPending"
    "call_toolName x = step_tool (WORKFLOW_STEPS ! i)"
    "call_agentId x = agent_id a"
    "runLoop e k c i m =
       m \<lparr> state := updateAgent (agent_id a)
                       \<lparr> upd_status = Some Processing, upd_confidence = None,
                         upd_lastUpdate = None \<rparr>
                       (addToolCall e x ((state m) \<lparr> currentStep := i + 1 \<rparr>)),
           tasks := tasks m @ [AwaitAgentCall k c i (call_id x) (agent_id a)
                                 (step_tool (WORKFLOW_STEPS ! i)) (now e)] \<rparr>"
proof -
  obtain a where a: "find (\<lambda>a. agent_type a = step_agent (WORKFLOW_STEPS ! i)) c = Some a"
    using roster_find [OF assms(3)] by blast
  have tool: "step_tool (WORKFLOW_STEPS ! i) \<noteq> ''request_human_approval''"
    using approval_step_index [OF assms(1)] assms(2) by simp
  let ?x = "\<lparr> call_id = ''call-'' @ number_toString (now e) @ ''-'' @ rnd e,
               call_agentId = agent_id a, call_toolName = step_tool (WORKFLOW_STEPS ! i),
               call_parameters = stepParameters (step_agent (WORKFLOW_STEPS ! i)),
               call_result = JUndefined, call_timestamp = 0, call_duration = None,
               call_status = CallPending \<rparr>"
  show ?thesis
    by (rule that [of a ?x])
       (use a tool assms(1) in \<open>simp_all add: runLoop_def executeStep_def
          callLaunchIOAgent_call_def length_WORKFLOW_STEPS Let_def\<close>)
qed

text \<open>At the approval step the loop of \<open>startWorkflow\<close> opens the request, arms the timer
  and ends without leaving a task behind.\<close>

lemma runLoop_approval:
  assumes "roster_ok c"
  obtains a r where
    "find (\<lambda>a. agent_type a = Negotiator) c = Some a"
    "approval_status r = Pending" "requestedBy r = agent_id a"
    "runLoop e StartLoop c 3 m =
       m \<lparr> state := updateAgent (agent_id a)
                       \<lparr> upd_status = Some Waiting, upd_confidence = None,
                         upd_lastUpdate = None \<rparr>
                       ((state m) \<lparr> currentStep := 4 \<rparr>),
           pendingApproval := Some r,
           timers := timers m @ [(nextTimer m, agent_id a)],
           timeoutRef := Some (nextTimer m),
           nextTimer := nextTimer m + 1 \<rparr>"
proof -
  obtain a where a: "find (\<lambda>a. agent_type a = Negotiator) c = Some a"
    using roster_find [OF assms] by blast
  have step3: "step_agent (WORKFLOW_STEPS ! 3) = Negotiator"
    "step_tool (WORKFLOW_STEPS ! 3) = ''request_human_approval''"
    by (simp_all add: WORKFLOW_STEPS_def)
  let ?r = "\<lparr> approval_id = ''approval-'' @ number_toString (now e),
               approval_message = ''Approve Oakland reroute for 150 containers?'',
               requestedBy = agent_id a, approval_timestamp = now e,
               approval_timeout = 300000, approval_status = Pending \<rparr>"
  show ?thesis
    by (rule that [of a ?r])
       (use a step3 in \<open>simp_all add: runLoop_def executeStep_def afterStep_def
          length_WORKFLOW_STEPS Let_def\<close>)
qed

lemma runLoop_end: "runLoop e k c 6 m = completeWorkflow e m"
  by (simp add: runLoop_def length_WORKFLOW_STEPS)

lemma afterStep_call:
  assumes "i < 6" "i \<noteq> 3"
  shows "afterStep k c i m = m \<lparr> tasks := tasks m @ [AwaitDelay k c i] \<rparr>"
  using approval_step_index [OF assms(1)] assms(2)
  by (cases k) (simp_all add: afterStep_def)

lemma runLoop_call_facts:
  assumes "i < 6" "i \<noteq> 3" "roster_ok c"
  shows "currentStep (state (runLoop e k c i m)) = i + 1"
    "pendingApproval (runLoop e k c i m) = pendingApproval m"
    "isRunning (state (runLoop e k c i m)) = isRunning (state m)"
proof -
  obtain a x where
    "find (\<lambda>a. agent_type a = step_agent (WORKFLOW_STEPS ! i)) c = Some a"
    "call_status x = CallPending"
    "call_toolName x = step_tool (WORKFLOW_STEPS ! i)"
    "call_agentId x = agent_id a"
    and ax: "runLoop e k c i m =
       m \<lparr> state := updateAgent (agent_id a)
                       \<lparr> upd_status = Some Processing, upd_confidence = None,
                         upd_lastUpdate = None \<rparr>
                       (addToolCall e x ((state m) \<lparr> currentStep := i + 1 \<rparr>)),
           tasks := tasks m @ [AwaitAgentCall k c i (call_id x) (agent_id a)
                                 (step_tool (WORKFLOW_STEPS ! i)) (now e)] \<rparr>"
    by (rule runLoop_call [OF assms, of e k m])
  show "currentStep (state (runLoop e k c i m)) = i + 1"
    "pendingApproval (runLoop e k c i m) = pendingApproval m"
    "isRunning (state (runLoop e k c i m)) = isRunning (state m)"
    unfolding ax by (simp_all add: updateAgent_fields addToolCall_def)
qed

lemma runLoop_approval_facts:
  assumes "roster_ok c"
  shows "currentStep (state (runLoop e StartLoop c 3 m)) = 4"
    "pendingApproval (runLoop e StartLoop c 3 m) \<noteq> None"
    "tasks (runLoop e StartLoop c 3 m) = tasks m"
proof -
  obtain a rq where "find (\<lambda>a. agent_type a = Negotiator) c = Some a"
    "approval_status rq = Pending" "requestedBy rq = agent_id a"
    and eq: "runLoop e StartLoop c 3 m =
       m \<lparr> state := updateAgent (agent_id a)
                       \<lparr> upd_status = Some Waiting, upd_confidence = None,
                         upd_lastUpdate = None \<rparr>
                       ((state m) \<lparr> currentStep := 4 \<rparr>),
           pendingApproval := Some rq,
           timers := timers m @ [(nextTimer m, agent_id a)],
           timeoutRef := Some (nextTimer m),
           nextTimer := nextTimer m + 1 \<rparr>"
    by (rule runLoop_approval [OF assms, of e m])
  show "currentStep (state (runLoop e StartLoop c 3 m)) = 4"
    "pendingApproval (runLoop e StartLoop c 3 m) \<noteq> None"
    "tasks (runLoop e StartLoop c 3 m) = tasks m"
    unfolding eq by (simp_all add: updateAgent_fields)
qed

subsection \<open>Reset\<close>

text \<open>
  Claim C5. Calling \<open>reset()\<close> from any state, also while an approval is pending, yields a
  state in which the run is not running, the tool call log is empty, there is no approval
  request, and each of the five agents is idle with confidence 0.
\<close>

theorem reset_restores_idle:
  "isRunning (state (resetWorkflow m)) = False \<and>
   currentStep (state (resetWorkflow m)) = 0 \<and>
   toolCalls (state (resetWorkflow m)) = [] \<and>
   pendingApproval (resetWorkflow m) = None \<and>
   map agent_type (agents (state (resetWorkflow m))) =
     [Sentinel, Simulator, Negotiator, Executor, Audit] \<and>
   map agent_status (agents (state (resetWorkflow m))) = [Idle, Idle, Idle, Idle, Idle] \<and>
   map agent_confidence (agents (state (resetWorkflow m))) =
     [JNum 0, JNum 0, JNum 0, JNum 0, JNum 0] \<and>
   step e ResetWorkflow m = Some (resetWorkflow m)"
  by (simp add: resetWorkflow_def MOCK_AGENTS_def step_def)

text \<open>
  Claim C9. \<open>reset()\<close> is idempotent: a second call in a row changes nothing, in the React
  state or in the timers and tasks behind it.
\<close>

theorem reset_idempotent:
  "resetWorkflow (resetWorkflow m) = resetWorkflow m"
  by (simp add: resetWorkflow_def clearTimeout_idem)

subsection \<open>A decision without a request\<close>



subsection \<open>A failing agent invocation\<close>

text \<open>
  Claim C3. For every step other than the approval step (index 3), a failure of the agent
  invocation (a rejected promise, an error answer, a missing body or a malformed result) never
  ends the run: the error is caught, the canned result that \<open>getMockResultForTool\<close> holds for
  the step's tool is substituted, the step's tool call is logged with status success, and the
  owning agent's status becomes success.

  The step is started by the loop head in a machine whose five agents are present, and the
  task it leaves behind is then resumed with a failed invocation. The substituted result is
  spelled out for each of the five tools, and so is the confidence the agent is given from
  it.
\<close>

theorem invocation_failure_falls_back:
  assumes i: "i < 6" "i \<noteq> 3"
    and roster: "roster_ok (agents (state m))"
    and failed: "invoke_failed outcome"
  shows "\<exists>a m1.
           find (\<lambda>x. agent_type x = step_agent (WORKFLOW_STEPS ! i)) (agents (state m)) = Some a \<and>
           step e1 (TaskSettles (length (tasks m)) (Invoked outcome))
                (runLoop e k (agents (state m)) i m) = Some m1 \<and>
           isRunning (state m1) = isRunning (state m) \<and>
           endTime (state m1) = endTime (state m) \<and>
           toolCalls (state m1) \<noteq> [] \<and>
           call_toolName (last (toolCalls (state m1))) = step_tool (WORKFLOW_STEPS ! i) \<and>
           call_agentId (last (toolCalls (state m1))) = agent_id a \<and>
           call_status (last (toolCalls (state m1))) = CallSuccess \<and>
           call_result (last (toolCalls (state m1))) =
             getMockResultForTool (step_tool (WORKFLOW_STEPS ! i)) \<and>
           call_result (last (toolCalls (state m1))) =
             (if i = 0 then
                JObj [(''congestion_score'', JNum 0.92), (''crane_activity'', JStr ''low''),
                      (''confidence'', JNum 0.89), (''containers_detected'', JNum 420),
                      (''strike_indicators'', JBool True)]
              else if i = 1 then
                JObj [(''optimal_route'',
                         JObj [(''fromPort'', JStr ''LAX''), (''toPort'', JStr ''OAK''),
                               (''cost'', JNum 15200), (''delay'', JNum 48),
                               (''carbonImpact'', JNum (-42)), (''probability'', JNum 0.89)]),
                      (''cost_savings'', JNum 2100000),
                      (''delay_analysis'', JObj [(''expected'', JNum 48), (''variance'', JNum 12)]),
                      (''scenarios_tested'', JNum 10000), (''confidence'', JNum 0.87)]
              else if i = 2 then
                JObj [(''carrier'', JStr ''Maersk''), (''original_rate'', JNum 17000),
                      (''negotiated_rate'', JNum 15200), (''discount'', JNum 0.12),
                      (''terms'', JArr [JStr ''Priority loading'', JStr ''48h SLA'',
                                        JStr ''Real-time tracking'']),
                      (''success'', JBool True)]
              else if i = 4 then
                JObj [(''rerouted_containers'',
                         JArr [JStr ''CTN-7843'', JStr ''CTN-7844'', JStr ''CTN-7845'']),
                      (''destination'', JStr ''Port of Oakland''),
                      (''eta'', JStr ''2024-07-22T14:30:00Z''),
                      (''tracking_ids'', JArr [JStr ''TRK-001'', JStr ''TRK-002'', JStr ''TRK-003''])]
              else
                JObj [(''transaction_hash'', JStr ''0x89b2f3e8c1d4a567890123456789abcdef123456''),
                      (''block_number'', JNum 18745623), (''gas_used'', JNum 52341),
                      (''confirmed'', JBool True)]) \<and>
           map_option agent_status
             (find (\<lambda>x. agent_id x = agent_id a) (agents (state m1))) = Some Success \<and>
           map_option agent_confidence
             (find (\<lambda>x. agent_id x = agent_id a) (agents (state m1))) =
             Some (if i = 0 then JNum 0.89 else if i = 1 then JNum 0.87
                   else if invoke_throws outcome then JNum 0.75 else JNum 0.85)"
proof -
  let ?tool = "step_tool (WORKFLOW_STEPS ! i)"
  obtain a x where
    a: "find (\<lambda>a. agent_type a = step_agent (WORKFLOW_STEPS ! i)) (agents (state m)) = Some a"
    and x: "call_status x = CallPending" "call_toolName x = ?tool" "call_agentId x = agent_id a"
    and ax: "runLoop e k (agents (state m)) i m =
       m \<lparr> state := updateAgent (agent_id a)
                       \<lparr> upd_status = Some Processing, upd_confidence = None,
                         upd_lastUpdate = None \<rparr>
                       (addToolCall e x ((state m) \<lparr> currentStep := i + 1 \<rparr>)),
           tasks := tasks m @ [AwaitAgentCall k (agents (state m)) i (call_id x) (agent_id a)
                                 ?tool (now e)] \<rparr>"
    by (rule runLoop_call [OF i roster, of e k m])
  define s1 where "s1 = updateAgent (agent_id a)
                       \<lparr> upd_status = Some Processing, upd_confidence = None,
                         upd_lastUpdate = None \<rparr>
                       (addToolCall e x ((state m) \<lparr> currentStep := i + 1 \<rparr>))"
  define u where "u = \<lparr> upd_status = Some Success,
         upd_confidence =
           Some (js_or (get_prop (getMockResultForTool ?tool) ''confidence'')
                       (JNum (if invoke_throws outcome then 0.75 else 0.85))),
         upd_lastUpdate = Some (now e1) \<rparr>"
  define v where "v = \<lparr> upd_result = Some (getMockResultForTool ?tool),
         upd_call_status = Some CallSuccess,
         upd_duration = Some (if invoke_throws outcome then 2000 else now e1 - now e) \<rparr>"
  define s2 where "s2 = updateAgent (agent_id a) u (updateToolCall (call_id x) v s1)"
  define m1 where "m1 = afterStep k (agents (state m)) i
                          (m \<lparr> state := stepMetrics i s2, tasks := tasks m \<rparr>)"
  have settled: "callLaunchIOAgent_settled e1 (call_id x) (agent_id a) ?tool (now e) outcome s1 = s2"
    unfolding s2_def u_def v_def by (rule settled_failed_shape [OF failed])
  obtain b0 where "find (\<lambda>x. agent_id x = agent_id a) (agents (state m)) = Some b0"
    using find_in_list [OF a] by blast
  then have owner: "find (\<lambda>x. agent_id x = agent_id a) (agents s1) = Some (spreadAgent b0
      \<lparr> upd_status = Some Processing, upd_confidence = None, upd_lastUpdate = None \<rparr>)"
    by (simp add: s1_def agents_updateAgent find_same_id addToolCall_def)
  have calls: "toolCalls s1 = toolCalls (state m) @ [x \<lparr> call_timestamp := now e \<rparr>]"
    by (simp add: s1_def updateAgent_fields addToolCall_def)
  have st: "step e1 (TaskSettles (length (tasks m)) (Invoked outcome))
                (runLoop e k (agents (state m)) i m) = Some m1"
    unfolding ax using settled by (simp add: step_def m1_def s1_def)
  have state_m1: "state m1 = stepMetrics i s2"
    by (simp add: m1_def afterStep_call [OF i])
  have run: "isRunning s2 = isRunning (state m)" "endTime s2 = endTime (state m)"
    by (simp_all add: s2_def s1_def updateAgent_fields updateToolCall_fields addToolCall_def)
  have lastc: "toolCalls s2 \<noteq> []"
    "last (toolCalls s2) = spreadToolCall (x \<lparr> call_timestamp := now e \<rparr>) v"
    unfolding s2_def by (rule updated_last_call [OF calls], simp)+
  have own2: "find (\<lambda>x. agent_id x = agent_id a) (agents s2) = Some (spreadAgent (spreadAgent b0
      \<lparr> upd_status = Some Processing, upd_confidence = None, upd_lastUpdate = None \<rparr>) u)"
    unfolding s2_def by (rule updated_owner [OF owner])
  have conf: "js_or (get_prop (getMockResultForTool ?tool) ''confidence'')
                    (JNum (if invoke_throws outcome then 0.75 else 0.85)) =
              (if i = 0 then JNum 0.89 else if i = 1 then JNum 0.87
               else if invoke_throws outcome then JNum 0.75 else JNum 0.85)"
    using fallback_confidence [OF i, of "if invoke_throws outcome then 0.75 else 0.85"]
    by auto
  show ?thesis
    apply (rule exI [of _ a])
    apply (rule exI [of _ m1])
    apply (subst fallback_table [OF i, symmetric])
    using a st run lastc own2 x conf
    by (simp add: state_m1 stepMetrics_fields spreadToolCall_def spreadAgent_def u_def v_def)
qed

text \<open>Witness for C3: the first step, started in the initial machine, with a rejected promise;
  and the third step with a response whose \<open>result\<close> is a string.\<close>

theorem invocation_failure_falls_back_witness:
  "roster_ok (agents (state initialMachine)) \<and> invoke_failed Rejects \<and>
   invoke_failed (Resolves (JObj [(''result'', JStr ''done'')]) JNull) \<and>
   (\<exists>a m1.
      find (\<lambda>x. agent_type x = step_agent (WORKFLOW_STEPS ! 0)) (agents (state initialMachine))
        = Some a \<and>
      step \<lparr> now = 90, rnd = ''p0q'' \<rparr> (TaskSettles (length (tasks initialMachine)) (Invoked Rejects))
           (runLoop \<lparr> now = 40, rnd = ''k3x'' \<rparr> StartLoop (agents (state initialMachine)) 0
              initialMachine) = Some m1 \<and>
      isRunning (state m1) = isRunning (state initialMachine) \<and>
      endTime (state m1) = endTime (state initialMachine) \<and>
      toolCalls (state m1) \<noteq> [] \<and>
      call_toolName (last (toolCalls (state m1))) = step_tool (WORKFLOW_STEPS ! 0) \<and>
      call_agentId (last (toolCalls (state m1))) = agent_id a \<and>
      call_status (last (toolCalls (state m1))) = CallSuccess \<and>
      call_result (last (toolCalls (state m1))) =
        getMockResultForTool (step_tool (WORKFLOW_STEPS ! 0)) \<and>
      call_result (last (toolCalls (state m1))) =
        JObj [(''congestion_score'', JNum 0.92), (''crane_activity'', JStr ''low''),
              (''confidence'', JNum 0.89), (''containers_detected'', JNum 420),
              (''strike_indicators'', JBool True)] \<and>
      map_option agent_status (find (\<lambda>x. agent_id x = agent_id a) (agents (state m1)))
        = Some Success \<and>
      map_option agent_confidence (find (\<lambda>x. agent_id x = agent_id a) (agents (state m1)))
        = Some (JNum 0.89)) \<and>
   (\<exists>a m1.
      find (\<lambda>x. agent_type x = step_agent (WORKFLOW_STEPS ! 2)) (agents (state initialMachine))
        = Some a \<and>
      step \<lparr> now = 3190, rnd = ''b2c'' \<rparr> (TaskSettles (length (tasks initialMachine)) (Invoked (Resolves (JObj [(''result'', JStr ''done'')]) JNull)))
           (runLoop \<lparr> now = 3140, rnd = ''b2c'' \<rparr> StartLoop (agents (state initialMachine)) 2
              initialMachine) = Some m1 \<and>
      isRunning (state m1) = isRunning (state initialMachine) \<and>
      endTime (state m1) = endTime (state initialMachine) \<and>
      toolCalls (state m1) \<noteq> [] \<and>
      call_toolName (last (toolCalls (state m1))) = step_tool (WORKFLOW_STEPS ! 2) \<and>
      call_agentId (last (toolCalls (state m1))) = agent_id a \<and>
      call_status (last (toolCalls (state m1))) = CallSuccess \<and>
      call_result (last (toolCalls (state m1))) =
        getMockResultForTool (step_tool (WORKFLOW_STEPS ! 2)) \<and>
      call_result (last (toolCalls (state m1))) =
        JObj [(''carrier'', JStr ''Maersk''), (''original_rate'', JNum 17000),
              (''negotiated_rate'', JNum 15200), (''discount'', JNum 0.12),
              (''terms'', JArr [JStr ''Priority loading'', JStr ''48h SLA'',
                                JStr ''Real-time tracking'']),
              (''success'', JBool True)] \<and>
      map_option agent_status (find (\<lambda>x. agent_id x = agent_id a) (agents (state m1)))
        = Some Success \<and>
      map_option agent_confidence (find (\<lambda>x. agent_id x = agent_id a) (agents (state m1)))
        = Some (JNum 0.85))"
proof -
  have r: "roster_ok (agents (state initialMachine))"
    by (simp add: initialMachine_def initialState_def MOCK_AGENTS_def roster_ok_def)
  have f: "invoke_failed Rejects" by simp
  have g: "invoke_failed (Resolves (JObj [(''result'', JStr ''done'')]) JNull)"
    by (simp add: not_object_def)
  have i0: "(0::nat) < 6" "(0::nat) \<noteq> 3" and i2: "(2::nat) < 6" "(2::nat) \<noteq> 3" by simp_all
  have first: "(\<exists>a m1.
      find (\<lambda>x. agent_type x = step_agent (WORKFLOW_STEPS ! 0)) (agents (state initialMachine))
        = Some a \<and>
      step \<lparr> now = 90, rnd = ''p0q'' \<rparr> (TaskSettles (length (tasks initialMachine)) (Invoked Rejects))
           (runLoop \<lparr> now = 40, rnd = ''k3x'' \<rparr> StartLoop (agents (state initialMachine)) 0
              initialMachine) = Some m1 \<and>
      isRunning (state m1) = isRunning (state initialMachine) \<and>
      endTime (state m1) = endTime (state initialMachine) \<and>
      toolCalls (state m1) \<noteq> [] \<and>
      call_toolName (last (toolCalls (state m1))) = step_tool (WORKFLOW_STEPS ! 0) \<and>
      call_agentId (last (toolCalls (state m1))) = agent_id a \<and>
      call_status (last (toolCalls (state m1))) = CallSuccess \<and>
      call_result (last (toolCalls (state m1))) =
        getMockResultForTool (step_tool (WORKFLOW_STEPS ! 0)) \<and>
      call_result (last (toolCalls (state m1))) =
        JObj [(''congestion_score'', JNum 0.92), (''crane_activity'', JStr ''low''),
              (''confidence'', JNum 0.89), (''containers_detected'', JNum 420),
              (''strike_indicators'', JBool True)] \<and>
      map_option agent_status (find (\<lambda>x. agent_id x = agent_id a) (agents (state m1)))
        = Some Success \<and>
      map_option agent_confidence (find (\<lambda>x. agent_id x = agent_id a) (agents (state m1)))
        = Some (JNum 0.89))"
    using invocation_failure_falls_back [OF i0 r f, of "\<lparr> now = 90, rnd = ''p0q'' \<rparr>"
      "\<lparr> now = 40, rnd = ''k3x'' \<rparr>" StartLoop]
    by simp
  have third: "(\<exists>a m1.
      find (\<lambda>x. agent_type x = step_agent (WORKFLOW_STEPS ! 2)) (agents (state initialMachine))
        = Some a \<and>
      step \<lparr> now = 3190, rnd = ''b2c'' \<rparr> (TaskSettles (length (tasks initialMachine)) (Invoked (Resolves (JObj [(''result'', JStr ''done'')]) JNull)))
           (runLoop \<lparr> now = 3140, rnd = ''b2c'' \<rparr> StartLoop (agents (state initialMachine)) 2
              initialMachine) = Some m1 \<and>
      isRunning (state m1) = isRunning (state initialMachine) \<and>
      endTime (state m1) = endTime (state initialMachine) \<and>
      toolCalls (state m1) \<noteq> [] \<and>
      call_toolName (last (toolCalls (state m1))) = step_tool (WORKFLOW_STEPS ! 2) \<and>
      call_agentId (last (toolCalls (state m1))) = agent_id a \<and>
      call_status (last (toolCalls (state m1))) = CallSuccess \<and>
      call_result (last (toolCalls (state m1))) =
        getMockResultForTool (step_tool (WORKFLOW_STEPS ! 2)) \<and>
      call_result (last (toolCalls (state m1))) =
        JObj [(''carrier'', JStr ''Maersk''), (''original_rate'', JNum 17000),
              (''negotiated_rate'', JNum 15200), (''discount'', JNum 0.12),
              (''terms'', JArr [JStr ''Priority loading'', JStr ''48h SLA'',
                                JStr ''Real-time tracking'']),
              (''success'', JBool True)] \<and>
      map_option agent_status (find (\<lambda>x. agent_id x = agent_id a) (agents (state m1)))
        = Some Success \<and>
      map_option agent_confidence (find (\<lambda>x. agent_id x = agent_id a) (agents (state m1)))
        = Some (JNum 0.85))"
    using invocation_failure_falls_back [OF i2 r g, of "\<lparr> now = 3190, rnd = ''b2c'' \<rparr>"
      "\<lparr> now = 3140, rnd = ''b2c'' \<rparr>" StartLoop]
    by simp
  show ?thesis using r f g first third by blast
qed

subsection \<open>The invariant of orderly sessions\<close>

lemma session_inv_initial: "session_inv initialMachine"
  by (simp add: session_inv_def initialMachine_def initialState_def roster_ok_def MOCK_AGENTS_def
      callsDone_def)

lemma session_inv_idle:
  assumes "session_inv m" "\<not> isRunning (state m)"
  shows "tasks m = []" "pendingApproval m = None" "timers m = []"
  using assms by (auto simp: session_inv_def split: list.splits option.splits)

lemma session_inv_start:
  assumes "session_inv m" "\<not> isRunning (state m)"
  shows "session_inv (startWorkflow e m)"
  using assms session_inv_idle [OF assms]
  by (simp add: session_inv_def startWorkflow_def roster_ok_def MOCK_AGENTS_def callsDone_def)

lemma session_inv_reset:
  assumes "session_inv m" "\<not> isRunning (state m)"
  shows "session_inv (resetWorkflow m)"
  using assms session_inv_idle [OF assms]
  by (simp add: session_inv_def resetWorkflow_def roster_ok_def MOCK_AGENTS_def callsDone_def
      clearTimeout_def split: option.splits)

lemma clearTimeout_session:
  assumes "session_inv m"
  shows "clearTimeout (timeoutRef m) (timers m) = []"
  using assms by (auto simp: session_inv_def clearTimeout_def split: list.splits option.splits)

lemma callsLogged_simps:
  "callsLogged 0 = 0" "callsLogged 4 = 3" "callsLogged 5 = 4"
  "i < 3 \<Longrightarrow> callsLogged (Suc i) = Suc i"
  "3 < i \<Longrightarrow> callsLogged (Suc i) = i"
  by (simp_all add: callsLogged_def)

text \<open>The invariant after the loop head has started a calling step.\<close>

lemma session_inv_runLoop_call:
  assumes inv: "roster_ok (agents (state m))" "roster_ok c"
    and idle: "tasks m = []" "pendingApproval m = None" "timers m = []"
    and run: "isRunning (state m)"
    and calls: "callsDone (toolCalls (state m))" "length (toolCalls (state m)) = callsLogged i"
    and i: "i < 6" "i \<noteq> 3" "(k = StartLoop) = (i < 3)"
  shows "session_inv (runLoop e k c i m)"
proof -
  obtain a x where
    "find (\<lambda>a. agent_type a = step_agent (WORKFLOW_STEPS ! i)) c = Some a"
    "call_status x = CallPending"
    "call_toolName x = step_tool (WORKFLOW_STEPS ! i)"
    "call_agentId x = agent_id a"
    and ax: "runLoop e k c i m =
             m \<lparr> state := updateAgent (agent_id a)
                             \<lparr> upd_status = Some Processing, upd_confidence = None,
                               upd_lastUpdate = None \<rparr>
                             (addToolCall e x ((state m) \<lparr> currentStep := i + 1 \<rparr>)),
                 tasks := tasks m @ [AwaitAgentCall k c i (call_id x) (agent_id a)
                                       (step_tool (WORKFLOW_STEPS ! i)) (now e)] \<rparr>"
    by (rule runLoop_call [OF i(1,2) inv(2), of e k m])
  have len: "callsLogged (Suc i) = Suc (callsLogged i)"
    using i(1,2) by (auto simp: callsLogged_def)
  show ?thesis
    unfolding ax
    using inv idle run calls i len
    by (simp add: session_inv_def roster_updateAgent updateAgent_fields addToolCall_def)
qed

lemma session_inv_decide:
  assumes "session_inv m"
  shows "session_inv (handleApproval e approved (pendingApproval m) (agents (state m)) m)"
proof (cases "pendingApproval m")
  case None
  then show ?thesis using assms by (simp add: handleApproval_def)
next
  case (Some request)
  have facts: "roster_ok (agents (state m))" "tasks m = []" "callsDone (toolCalls (state m))"
    "isRunning (state m)" "currentStep (state m) = 4" "length (toolCalls (state m)) = 3"
    using assms Some by (auto simp: session_inv_def split: list.splits)
  have ct: "clearTimeout (timeoutRef m) (timers m) = []"
    by (rule clearTimeout_session [OF assms])
  define s1 where "s1 = (\<lambda>st. case find (\<lambda>a. agent_id a = requestedBy request) (agents (state m)) of
               Some agent \<Rightarrow>
                 updateAgent (agent_id agent)
                   \<lparr> upd_status = Some st, upd_confidence = None, upd_lastUpdate = None \<rparr> (state m)
             | None \<Rightarrow> state m)"
  have s1: "roster_ok (agents (s1 st))" "toolCalls (s1 st) = toolCalls (state m)"
    "isRunning (s1 st) = isRunning (state m)" "currentStep (s1 st) = currentStep (state m)" for st
    using facts(1) by (auto simp: s1_def roster_updateAgent updateAgent_fields split: option.splits)
  show ?thesis
  proof (cases approved)
    case True
    have "session_inv (runLoop e ApprovalLoop (agents (state m)) 4
                         (m \<lparr> state := s1 Success, pendingApproval := None, timers := [] \<rparr>))"
      by (rule session_inv_runLoop_call) (use facts s1 in \<open>simp_all add: callsLogged_simps\<close>)
    then show ?thesis
      using Some True ct by (simp add: handleApproval_def Let_def s1_def)
  next
    case False
    have "session_inv (m \<lparr> pendingApproval := None, timers := [],
                           state := (s1 Error) \<lparr> isRunning := False, endTime := Some (now e) \<rparr> \<rparr>)"
      using facts s1 by (simp add: session_inv_def)
    then show ?thesis
      using Some False ct by (simp add: handleApproval_def Let_def s1_def)
  qed
qed

lemma session_inv_timer:
  assumes "session_inv m" "step e (TimerFires h) m = Some m1"
  shows "session_inv m1"
proof -
  obtain aid where aid: "map_of (timers m) h = Some aid"
    and m1: "m1 = timeoutCallback aid (m \<lparr> timers := filter (\<lambda>t. fst t \<noteq> h) (timers m) \<rparr>)"
    using assms(2) by (auto simp: step_def split: option.splits)
  have one: "timers m = [(h, aid)]"
    using assms(1) aid by (auto simp: session_inv_def split: list.splits if_splits)
  obtain request where req: "pendingApproval m = Some request"
    using assms(1) one by (auto simp: session_inv_def)
  show ?thesis
    using assms(1) one req
    by (auto simp: m1 session_inv_def timeoutCallback_def roster_updateAgent updateAgent_fields
        split: list.splits)
qed

lemma task_inv_state: "state m2 = state m \<Longrightarrow> task_inv m2 t = task_inv m t"
  by (cases t) simp_all

lemma session_inv_settle:
  assumes inv: "session_inv m" and st: "step e (TaskSettles n r) m = Some m1"
  shows "session_inv m1"
proof -
  have n: "n < length (tasks m)"
    using st by (auto simp: step_def split: if_splits)
  then obtain t where t: "tasks m = [t]" and n0: "n = 0"
    using inv by (auto simp: session_inv_def split: list.splits)
  define m0 where "m0 = m \<lparr> tasks := [] \<rparr>"
  have res: "resume e t r m0 = Some m1"
    using st t n0 by (simp add: step_def m0_def)
  have base: "roster_ok (agents (state m0))" "tasks m0 = []" "pendingApproval m0 = None"
    "timers m0 = []" "isRunning (state m0)" "task_inv m0 t" "state m0 = state m"
    using inv t task_inv_state [of m0 m t]
    by (auto simp: session_inv_def m0_def split: list.splits)
  show ?thesis
  proof (cases t)
    case (AwaitWorkflowInit c)
    show ?thesis
    proof (cases r)
      case (Invoked out)
      show ?thesis
      proof (cases out)
        case Rejects
        have "session_inv (runLoop e StartLoop c 0 m0)"
          by (rule session_inv_runLoop_call)
             (use base AwaitWorkflowInit in \<open>simp_all add: callsDone_def callsLogged_simps\<close>)
        then show ?thesis using res AwaitWorkflowInit Invoked Rejects by simp
      next
        case (Resolves d err)
        have "m1 = m0 \<lparr> tasks := [AwaitAnalysis c] \<rparr>"
          using res AwaitWorkflowInit Invoked Resolves base by simp
        then show ?thesis
          using base AwaitWorkflowInit by (simp add: session_inv_def callsDone_def)
      qed
    next
      case Elapsed
      then show ?thesis using res AwaitWorkflowInit by simp
    qed
  next
    case (AwaitAnalysis c)
    show ?thesis
    proof (cases r)
      case (Invoked out)
      show ?thesis
      proof (cases out)
        case Rejects
        have "session_inv (runLoop e StartLoop c 0 m0)"
          by (rule session_inv_runLoop_call)
             (use base AwaitAnalysis in \<open>simp_all add: callsDone_def callsLogged_simps\<close>)
        then show ?thesis using res AwaitAnalysis Invoked Rejects by simp
      next
        case (Resolves d err)
        have "session_inv (runLoop e StartLoop c 0
                             (m0 \<lparr> state := analysisMetrics d err (state m0) \<rparr>))"
          by (rule session_inv_runLoop_call)
             (use base AwaitAnalysis in
               \<open>simp_all add: callsDone_def callsLogged_simps analysisMetrics_fields\<close>)
        then show ?thesis using res AwaitAnalysis Invoked Resolves by simp
      qed
    next
      case Elapsed
      then show ?thesis using res AwaitAnalysis by simp
    qed
  next
    case (AwaitAgentCall k c i cid aid tool t0)
    have ti: "roster_ok c" "i < 6" "i \<noteq> 3" "(k = StartLoop) = (i < 3)"
      "currentStep (state m0) = i + 1" "length (toolCalls (state m0)) = callsLogged (i + 1)"
      "callsDone (butlast (toolCalls (state m0)))" "call_id (last (toolCalls (state m0))) = cid"
      using base(6) AwaitAgentCall by simp_all
    have ne: "toolCalls (state m0) \<noteq> []"
      using ti(2,3,6) by (auto simp: callsLogged_def split: if_splits)
    show ?thesis
    proof (cases r)
      case (Invoked out)
      define s2 where "s2 = stepMetrics i (callLaunchIOAgent_settled e cid aid tool t0 out (state m0))"
      have s2: "roster_ok (agents s2)" "isRunning s2" "currentStep s2 = i + 1"
        "length (toolCalls s2) = callsLogged (i + 1)" "callsDone (toolCalls s2)"
        using base ti settled_callsDone [OF ne ti(7,8), of e aid tool t0 out]
        by (simp_all add: s2_def stepMetrics_fields settled_fields)
      have "m1 = m0 \<lparr> state := s2, tasks := [AwaitDelay k c i] \<rparr>"
        using res AwaitAgentCall Invoked base(2)
        by (simp add: afterStep_call [OF ti(2,3)] s2_def)
      then show ?thesis
        using base s2 ti by (simp add: session_inv_def)
    next
      case Elapsed
      then show ?thesis using res AwaitAgentCall by simp
    qed
  next
    case (AwaitDelay k c i)
    have ti: "roster_ok c" "i < 6" "i \<noteq> 3" "(k = StartLoop) = (i < 3)"
      "currentStep (state m0) = i + 1" "length (toolCalls (state m0)) = callsLogged (i + 1)"
      "callsDone (toolCalls (state m0))"
      using base(6) AwaitDelay by simp_all
    show ?thesis
    proof (cases r)
      case (Invoked out)
      then show ?thesis using res AwaitDelay by simp
    next
      case Elapsed
      have m1: "m1 = runLoop e k c (i + 1) m0"
        using res AwaitDelay Elapsed by simp
      consider (approval) "i = 2" | (last) "i = 5" | (call) "i + 1 < 6" "i + 1 \<noteq> 3"
        using ti(2) by arith
      then show ?thesis
      proof cases
        case approval
        then have k: "k = StartLoop" using ti(4) by simp
        obtain a rq where "find (\<lambda>a. agent_type a = Negotiator) c = Some a"
          "approval_status rq = Pending" "requestedBy rq = agent_id a"
          and eq: "runLoop e StartLoop c 3 m0 =
             m0 \<lparr> state := updateAgent (agent_id a)
                             \<lparr> upd_status = Some Waiting, upd_confidence = None,
                               upd_lastUpdate = None \<rparr>
                             ((state m0) \<lparr> currentStep := 4 \<rparr>),
                 pendingApproval := Some rq,
                 timers := timers m0 @ [(nextTimer m0, agent_id a)],
                 timeoutRef := Some (nextTimer m0),
                 nextTimer := nextTimer m0 + 1 \<rparr>"
          by (rule runLoop_approval [OF ti(1), of e m0])
        have "m1 = runLoop e StartLoop c 3 m0"
          using m1 approval k by simp
        then show ?thesis
          unfolding eq using base ti approval
          by (simp add: session_inv_def roster_updateAgent updateAgent_fields callsLogged_def)
      next
        case last
        then have "m1 = completeWorkflow e m0"
          using m1 by (simp add: runLoop_end)
        then show ?thesis
          using base ti by (simp add: session_inv_def completeWorkflow_def)
      next
        case call
        have "session_inv (runLoop e k c (i + 1) m0)"
          by (rule session_inv_runLoop_call) (use base ti call in \<open>auto\<close>)
        then show ?thesis using m1 by simp
      qed
    qed
  qed
qed

lemma session_inv_step:
  assumes "session_inv m" "orderly ev m" "step e ev m = Some m1"
  shows "session_inv m1"
proof (cases ev)
  case StartWorkflow
  then show ?thesis using assms session_inv_start [of m e] by (simp add: step_def)
next
  case (HandleApproval approved)
  then show ?thesis using assms session_inv_decide [of m e approved] by (simp add: step_def)
next
  case (HandleApprovalStale approved p c)
  then show ?thesis using assms(2) by simp
next
  case ResetWorkflow
  then show ?thesis using assms session_inv_reset [of m] by (simp add: step_def)
next
  case (TimerFires h)
  then show ?thesis using assms session_inv_timer by blast
next
  case (TaskSettles n r)
  then show ?thesis using assms session_inv_settle by blast
qed

lemma reachable_session_inv: "reachable m \<Longrightarrow> session_inv m"
  by (induction rule: reachable.induct) (auto intro: session_inv_initial session_inv_step)

text \<open>A session that \<open>run_orderly\<close> accepts ends in a reachable machine.\<close>

lemma run_orderly_reachable: "reachable m \<Longrightarrow> run_orderly tr m = Some m1 \<Longrightarrow> reachable m1"
proof (induction tr arbitrary: m)
  case Nil
  then show ?case by simp
next
  case (Cons p tr)
  obtain e ev where p: "p = (e, ev)" by (cases p)
  from Cons.prems(2) p obtain m2 where en: "orderly ev m" and st: "step e ev m = Some m2"
    and rest: "run_orderly tr m2 = Some m1"
    by (auto split: if_splits option.splits)
  have "reachable m2" by (rule reachable_step [OF Cons.prems(1) en st])
  then show ?case using Cons.IH rest by blast
qed

lemma run_orderly_run: "run_orderly tr m = Some m1 \<Longrightarrow> run tr m = Some m1"
  by (induction tr arbitrary: m) (auto split: if_splits option.splits)

lemma machine_after_reachable:
  assumes "run_orderly tr initialMachine \<noteq> None"
  shows "reachable (machine_after tr)"
proof -
  obtain m1 where m1: "run_orderly tr initialMachine = Some m1" using assms by blast
  then have "machine_after tr = m1"
    using run_orderly_run [OF m1] by (simp add: machine_after_def)
  then show ?thesis using run_orderly_reachable [OF reachable_init m1] by simp
qed

lemma completed_session_ok: "run_orderly session_completed initialMachine \<noteq> None"
  by code_simp

lemma approval_session_ok: "run_orderly session_to_approval initialMachine \<noteq> None"
  by code_simp

subsection \<open>The order of the steps\<close>

lemma handleApproval_currentStep:
  assumes "session_inv m" "pendingApproval m = Some request"
  shows "currentStep (state (handleApproval e True (pendingApproval m) (agents (state m)) m)) = 5"
    "currentStep (state (handleApproval e False (pendingApproval m) (agents (state m)) m))
       = currentStep (state m)"
proof -
  have r: "roster_ok (agents (state m))"
    using assms(1) by (simp add: session_inv_def)
  show "currentStep (state (handleApproval e True (pendingApproval m) (agents (state m)) m)) = 5"
    using assms(2) runLoop_call_facts(1) [of 4 "agents (state m)" e ApprovalLoop] r
    by (simp add: handleApproval_def Let_def)
  show "currentStep (state (handleApproval e False (pendingApproval m) (agents (state m)) m))
          = currentStep (state m)"
    using assms(2)
    by (simp add: handleApproval_def Let_def updateAgent_fields split: option.splits)
qed

text \<open>
  Claim C4 says that in every run the six workflow steps execute in strictly increasing index
  order, step \<open>i + 1\<close> not starting before step \<open>i\<close> is completed. \<open>reset()\<close> can be called
  at any time and cancels no loop. In the session below the run is reset while its first call
  is in flight and started again; the loop of the first run goes on and starts the step at
  index 1 (\<open>currentStep\<close> 2, a pending \<open>run_monte_carlo\<close> call) before the second run has
  started its step at index 0; when the second run does start it, \<open>currentStep\<close> falls
  back to 1 and two calls are pending at once.
\<close>

theorem restart_breaks_step_order:
  "map_option (\<lambda>m. (isRunning (state m), currentStep (state m),
                     map call_toolName (toolCalls (state m)),
                     map call_status (toolCalls (state m))))
     (run session_restarted initialMachine)
   = Some (True, 2, [''run_monte_carlo''], [CallPending]) \<and>
   map_option (\<lambda>m. (isRunning (state m), currentStep (state m),
                     map call_toolName (toolCalls (state m)),
                     map call_status (toolCalls (state m))))
     (run (session_restarted @
           [(\<lparr> now = 1600, rnd = ''v2w'' \<rparr>, TaskSettles 0 (Invoked Rejects))]) initialMachine)
   = Some (True, 1, [''run_monte_carlo'', ''analyze_satellite_imagery''],
           [CallPending, CallPending])"
  by code_simp

text \<open>
  Claim C4, amended. In an orderly session (\<open>start()\<close> and \<open>reset()\<close> are called only while
  the run is not running, and every decision is taken through the handler of the latest
  render) the six workflow steps execute in strictly increasing index order: step \<open>i + 1\<close>
  does not start before step \<open>i\<close> is completed, the approval step (index 3) never completes
  by itself, and on approval the run resumes exactly at index 4.

  \<open>executeStep i\<close> sets \<open>currentStep\<close> to \<open>i + 1\<close>, so the steps started are read off
  \<open>currentStep\<close>. Every event of such a session leaves \<open>currentStep\<close> as it is, resets it
  to 0 (start and reset only), or advances it by exactly one; when it advances, every call
  logged so far has status success and there is one for each earlier step but the approval
  step. Entering the approval step opens a request and leaves no task in flight; leaving it
  takes \<open>handleApproval(true)\<close>, which starts the step at index 4.
\<close>

theorem steps_run_in_order:
  assumes "reachable m" "orderly ev m" "step e ev m = Some m1"
  shows
    "(currentStep (state m1) = currentStep (state m) \<or>
      (currentStep (state m1) = 0 \<and> (ev = StartWorkflow \<or> ev = ResetWorkflow)) \<or>
      (currentStep (state m1) = currentStep (state m) + 1 \<and> currentStep (state m) < 6 \<and>
       callsDone (toolCalls (state m)) \<and>
       length (toolCalls (state m)) = callsLogged (currentStep (state m)))) \<and>
     (currentStep (state m) = 3 \<and> currentStep (state m1) = 4 \<longrightarrow>
        pendingApproval m1 \<noteq> None \<and> tasks m1 = []) \<and>
     (currentStep (state m) = 4 \<and> currentStep (state m1) = 5 \<longrightarrow> ev = HandleApproval True) \<and>
     (ev = HandleApproval True \<and> pendingApproval m \<noteq> None \<longrightarrow>
        currentStep (state m) = 4 \<and> currentStep (state m1) = 5)"
proof -
  have inv: "session_inv m"
    by (rule reachable_session_inv [OF assms(1)])
  have roster: "roster_ok (agents (state m))"
    using inv by (simp add: session_inv_def)
  show ?thesis
  proof (cases ev)
    case StartWorkflow
    then have "m1 = startWorkflow e m" using assms(3) by (simp add: step_def)
    then have "currentStep (state m1) = 0" by (simp add: startWorkflow_def)
    then show ?thesis using StartWorkflow by auto
  next
    case ResetWorkflow
    then have "m1 = resetWorkflow m" using assms(3) by (simp add: step_def)
    then have "currentStep (state m1) = 0" by (simp add: resetWorkflow_def)
    then show ?thesis using ResetWorkflow by auto
  next
    case (TimerFires h)
    then have "currentStep (state m1) = currentStep (state m)"
      using assms(3)
      by (auto simp: step_def timeoutCallback_def updateAgent_fields split: option.splits)
    then show ?thesis using TimerFires by auto
  next
    case (HandleApproval approved)
    have m1: "m1 = handleApproval e approved (pendingApproval m) (agents (state m)) m"
      using assms(3) HandleApproval by (simp add: step_def)
    show ?thesis
    proof (cases "pendingApproval m")
      case None
      then show ?thesis using m1 HandleApproval by (auto simp: handleApproval_def)
    next
      case (Some request)
      have facts: "tasks m = []" "callsDone (toolCalls (state m))"
        "currentStep (state m) = 4" "length (toolCalls (state m)) = 3"
        using inv Some by (auto simp: session_inv_def split: list.splits)
      show ?thesis
        using handleApproval_currentStep [OF inv Some, of e] facts m1 HandleApproval
        by (cases approved) (auto simp: callsLogged_def)
    qed
  next
    case (HandleApprovalStale approved p c)
    then show ?thesis using assms(2) by simp
  next
    case (TaskSettles n r)
    have n: "n < length (tasks m)"
      using assms(3) TaskSettles by (auto simp: step_def split: if_splits)
    then obtain t where t: "tasks m = [t]" and n0: "n = 0"
      using inv by (auto simp: session_inv_def split: list.splits)
    define m0 where "m0 = m \<lparr> tasks := [] \<rparr>"
    have res: "resume e t r m0 = Some m1"
      using assms(3) TaskSettles t n0 by (simp add: step_def m0_def)
    have base: "tasks m0 = []" "pendingApproval m0 = None" "task_inv m0 t" "state m0 = state m"
      using inv t task_inv_state [of m0 m t]
      by (auto simp: session_inv_def m0_def split: list.splits)
    have same: ?thesis if "currentStep (state m1) = currentStep (state m)"
      using that TaskSettles by auto
    have starts: ?thesis
      if "i < 6" "i \<noteq> 3" "roster_ok c" "m1 = runLoop e k c i m2" "state m2 = state m"
        "currentStep (state m) = i" "callsDone (toolCalls (state m))"
        "length (toolCalls (state m)) = callsLogged i" "i \<noteq> 4"
      for i c k m2
      using that runLoop_call_facts(1) [OF that(1,2,3), of e k m2] TaskSettles by auto
    show ?thesis
    proof (cases t)
      case (AwaitWorkflowInit c)
      then have ti: "roster_ok c" "currentStep (state m) = 0" "toolCalls (state m) = []"
        using base by simp_all
      show ?thesis
      proof (cases r)
        case (Invoked out)
        show ?thesis
        proof (cases out)
          case Rejects
          show ?thesis
            by (rule starts [of 0 c StartLoop m0])
               (use res AwaitWorkflowInit Invoked Rejects ti base in
                 \<open>simp_all add: callsDone_def callsLogged_def\<close>)
        next
          case (Resolves d err)
          show ?thesis
            by (rule same) (use res AwaitWorkflowInit Invoked Resolves base in auto)
        qed
      next
        case Elapsed
        then show ?thesis using res AwaitWorkflowInit by simp
      qed
    next
      case (AwaitAnalysis c)
      then have ti: "roster_ok c" "currentStep (state m) = 0" "toolCalls (state m) = []"
        using base by simp_all
      show ?thesis
      proof (cases r)
        case (Invoked out)
        show ?thesis
        proof (cases out)
          case Rejects
          show ?thesis
            by (rule starts [of 0 c StartLoop m0])
               (use res AwaitAnalysis Invoked Rejects ti base in
                 \<open>simp_all add: callsDone_def callsLogged_def\<close>)
        next
          case (Resolves d err)
          have "currentStep (state m1) = 1"
            using res AwaitAnalysis Invoked Resolves
              runLoop_call_facts(1) [of 0 c e StartLoop] ti(1)
            by auto
          then show ?thesis
            using ti TaskSettles by (auto simp: callsDone_def callsLogged_def)
        qed
      next
        case Elapsed
        then show ?thesis using res AwaitAnalysis by simp
      qed
    next
      case (AwaitAgentCall k c i cid aid tool t0)
      then have ti: "i < 6" "i \<noteq> 3" "currentStep (state m) = i + 1"
        using base by simp_all
      show ?thesis
      proof (cases r)
        case (Invoked out)
        show ?thesis
          by (rule same)
             (use res AwaitAgentCall Invoked base ti in
               \<open>auto simp: afterStep_call stepMetrics_fields settled_fields\<close>)
      next
        case Elapsed
        then show ?thesis using res AwaitAgentCall by simp
      qed
    next
      case (AwaitDelay k c i)
      then have ti: "roster_ok c" "i < 6" "i \<noteq> 3" "(k = StartLoop) = (i < 3)"
        "currentStep (state m) = i + 1" "length (toolCalls (state m)) = callsLogged (i + 1)"
        "callsDone (toolCalls (state m))"
        using base by simp_all
      show ?thesis
      proof (cases r)
        case (Invoked out)
        then show ?thesis using res AwaitDelay by simp
      next
        case Elapsed
        have m1: "m1 = runLoop e k c (i + 1) m0"
          using res AwaitDelay Elapsed by simp
        consider (approval) "i = 2" | (last) "i = 5" | (calling) "i + 1 < 6" "i + 1 \<noteq> 3"
          using ti(2) by arith
        then show ?thesis
        proof cases
          case approval
          then have k: "k = StartLoop" using ti(4) by simp
          show ?thesis
            using runLoop_approval_facts [OF ti(1), of e m0] m1 k approval ti base TaskSettles
            by (auto simp: callsLogged_def)
        next
          case last
          show ?thesis
            by (rule same) (use m1 last ti base in \<open>simp add: runLoop_end completeWorkflow_def\<close>)
        next
          case calling
          show ?thesis
            by (rule starts [of "i + 1" c k m0]) (use calling m1 ti base in auto)
        qed
      qed
    qed
  qed
qed

text \<open>Witness for C4: the orderly session that waits at the approval step, then approved.\<close>

theorem steps_run_in_order_witness:
  "reachable (machine_after session_to_approval) \<and>
   orderly (HandleApproval True) (machine_after session_to_approval) \<and>
   pendingApproval (machine_after session_to_approval) \<noteq> None \<and>
   step \<lparr> now = 5690, rnd = ''d4e'' \<rparr> (HandleApproval True) (machine_after session_to_approval)
     = Some (machine_after (session_to_approval @
               [(\<lparr> now = 5690, rnd = ''d4e'' \<rparr>, HandleApproval True)])) \<and>
   currentStep (state (machine_after session_to_approval)) = 4 \<and>
   currentStep (state (machine_after (session_to_approval @
      [(\<lparr> now = 5690, rnd = ''d4e'' \<rparr>, HandleApproval True)]))) = 5"
proof -
  have r: "reachable (machine_after session_to_approval)"
    by (rule machine_after_reachable [OF approval_session_ok])
  have u: "orderly (HandleApproval True) (machine_after session_to_approval)"
    by simp
  have p: "pendingApproval (machine_after session_to_approval) \<noteq> None"
    by code_simp
  have s: "step \<lparr> now = 5690, rnd = ''d4e'' \<rparr> (HandleApproval True)
             (machine_after session_to_approval)
           = Some (machine_after (session_to_approval @
                     [(\<lparr> now = 5690, rnd = ''d4e'' \<rparr>, HandleApproval True)]))"
    by code_simp
  from steps_run_in_order [OF r u s] show ?thesis using r u p s by blast
qed

subsection \<open>Start\<close>

text \<open>
  Claim C7 says that \<open>start()\<close> sets the run to running, resets every agent to idle with
  confidence 0, empties the tool call log, clears any existing approval request, and begins
  execution at step 0. \<open>startWorkflow\<close> never writes \<open>pendingApproval\<close>. In the session
  below the run is reset during the delay before the approval step; the loop, which no reset
  cancels, then opens the approval request in the reset state. The run is not running and a
  request exists; \<open>start()\<close> is called, and the request is still there.
\<close>

theorem start_keeps_existing_request:
  "map_option (\<lambda>m. (isRunning (state m), map_option approval_status (pendingApproval m)))
     (run session_reset_before_approval initialMachine)
   = Some (False, Some Pending) \<and>
   map_option (\<lambda>m. (isRunning (state m), map_option approval_status (pendingApproval m)))
     (run (session_reset_before_approval @ [(\<lparr> now = 5000, rnd = ''k3x'' \<rparr>, StartWorkflow)])
        initialMachine)
   = Some (True, Some Pending)"
  by code_simp

text \<open>The loop head at index 0 in a state with an empty log: the first step is started.\<close>

lemma first_step_started:
  assumes "roster_ok c" "toolCalls (state m) = []"
  shows "currentStep (state (runLoop e StartLoop c 0 m)) = 1 \<and>
         map call_toolName (toolCalls (state (runLoop e StartLoop c 0 m))) =
           [''analyze_satellite_imagery''] \<and>
         map call_status (toolCalls (state (runLoop e StartLoop c 0 m))) = [CallPending] \<and>
         isRunning (state (runLoop e StartLoop c 0 m)) = isRunning (state m)"
proof -
  have i: "(0::nat) < 6" "(0::nat) \<noteq> 3" by simp_all
  obtain a x where
    "find (\<lambda>a. agent_type a = step_agent (WORKFLOW_STEPS ! 0)) c = Some a"
    "call_status x = CallPending"
    "call_toolName x = step_tool (WORKFLOW_STEPS ! 0)"
    "call_agentId x = agent_id a"
    and ax: "runLoop e StartLoop c 0 m =
       m \<lparr> state := updateAgent (agent_id a)
                       \<lparr> upd_status = Some Processing, upd_confidence = None,
                         upd_lastUpdate = None \<rparr>
                       (addToolCall e x ((state m) \<lparr> currentStep := 0 + 1 \<rparr>)),
           tasks := tasks m @ [AwaitAgentCall StartLoop c 0 (call_id x) (agent_id a)
                                 (step_tool (WORKFLOW_STEPS ! 0)) (now e)] \<rparr>"
    by (rule runLoop_call [OF i assms(1), of e StartLoop m])
  have tool: "step_tool (WORKFLOW_STEPS ! 0) = ''analyze_satellite_imagery''"
    by (simp add: WORKFLOW_STEPS_def)
  show ?thesis
    unfolding ax
    using assms(2) \<open>call_status x = CallPending\<close> \<open>call_toolName x = step_tool (WORKFLOW_STEPS ! 0)\<close>
    by (simp add: updateAgent_fields addToolCall_def tool)
qed

text \<open>
  Claim C7, amended. \<open>start()\<close> sets the run to running, records the start time, sets
  \<open>currentStep\<close> to 0, empties the tool call log, resets every agent to idle with confidence 0,
  and leaves the approval request as it is: an existing request is not cleared. The function
  then awaits its two backend calls, and whichever way they settle (the first rejects; the
  first resolves and the second rejects; both resolve) the step at index 0 is started next:
  \<open>currentStep\<close> becomes 1 and the log holds one pending \<open>analyze_satellite_imagery\<close> call,
  the run still running.
\<close>

theorem start_effect:
  "isRunning (state (startWorkflow e m)) = True \<and>
   startTime (state (startWorkflow e m)) = Some (now e) \<and>
   currentStep (state (startWorkflow e m)) = 0 \<and>
   toolCalls (state (startWorkflow e m)) = [] \<and>
   map agent_type (agents (state (startWorkflow e m))) =
     [Sentinel, Simulator, Negotiator, Executor, Audit] \<and>
   map agent_status (agents (state (startWorkflow e m))) = [Idle, Idle, Idle, Idle, Idle] \<and>
   map agent_confidence (agents (state (startWorkflow e m))) =
     [JNum 0, JNum 0, JNum 0, JNum 0, JNum 0] \<and>
   pendingApproval (startWorkflow e m) = pendingApproval m \<and>
   tasks (startWorkflow e m) = tasks m @ [AwaitWorkflowInit (agents (state m))] \<and>
   (roster_ok (agents (state m)) \<longrightarrow>
      (\<exists>m1. run [(e1, TaskSettles (length (tasks m)) (Invoked Rejects))] (startWorkflow e m)
               = Some m1 \<and>
            isRunning (state m1) \<and> currentStep (state m1) = 1 \<and>
            map call_toolName (toolCalls (state m1)) = [''analyze_satellite_imagery''] \<and>
            map call_status (toolCalls (state m1)) = [CallPending]) \<and>
      (\<exists>m1. run [(e1, TaskSettles (length (tasks m)) (Invoked (Resolves d1 err1))),
                  (e2, TaskSettles (length (tasks m)) (Invoked Rejects))] (startWorkflow e m)
               = Some m1 \<and>
            isRunning (state m1) \<and> currentStep (state m1) = 1 \<and>
            map call_toolName (toolCalls (state m1)) = [''analyze_satellite_imagery''] \<and>
            map call_status (toolCalls (state m1)) = [CallPending]) \<and>
      (\<exists>m1. run [(e1, TaskSettles (length (tasks m)) (Invoked (Resolves d1 err1))),
                  (e2, TaskSettles (length (tasks m)) (Invoked (Resolves d2 err2)))]
                 (startWorkflow e m)
               = Some m1 \<and>
            isRunning (state m1) \<and> currentStep (state m1) = 1 \<and>
            map call_toolName (toolCalls (state m1)) = [''analyze_satellite_imagery''] \<and>
            map call_status (toolCalls (state m1)) = [CallPending]))"
proof -
  let ?c = "agents (state m)"
  let ?n = "length (tasks m)"
  define m0 where "m0 = (startWorkflow e m) \<lparr> tasks := tasks m \<rparr>"
  have m0: "toolCalls (state m0) = []" "isRunning (state m0)" "tasks m0 = tasks m"
    by (simp_all add: m0_def startWorkflow_def)
  have tk: "tasks (startWorkflow e m) = tasks m @ [AwaitWorkflowInit ?c]"
    by (simp add: startWorkflow_def)
  have rej: "step e1 (TaskSettles ?n (Invoked Rejects)) (startWorkflow e m)
               = Some (runLoop e1 StartLoop ?c 0 m0)" for e1
    by (simp add: step_def tk m0_def)
  have res: "step e1 (TaskSettles ?n (Invoked (Resolves d1 err1))) (startWorkflow e m)
               = Some (m0 \<lparr> tasks := tasks m @ [AwaitAnalysis ?c] \<rparr>)" for e1 d1 err1
    by (simp add: step_def tk m0_def)
  have rej2: "step e2 (TaskSettles ?n (Invoked Rejects))
                (m0 \<lparr> tasks := tasks m @ [AwaitAnalysis ?c] \<rparr>)
               = Some (runLoop e2 StartLoop ?c 0 m0)" for e2
    by (simp add: step_def m0_def)
  have res2: "step e2 (TaskSettles ?n (Invoked (Resolves d2 err2)))
                (m0 \<lparr> tasks := tasks m @ [AwaitAnalysis ?c] \<rparr>)
               = Some (runLoop e2 StartLoop ?c 0
                         (m0 \<lparr> state := analysisMetrics d2 err2 (state m0) \<rparr>))" for e2 d2 err2
    by (simp add: step_def m0_def)
  have begins: "(\<exists>m1. run [(e1, TaskSettles ?n (Invoked Rejects))] (startWorkflow e m) = Some m1 \<and>
            isRunning (state m1) \<and> currentStep (state m1) = 1 \<and>
            map call_toolName (toolCalls (state m1)) = [''analyze_satellite_imagery''] \<and>
            map call_status (toolCalls (state m1)) = [CallPending]) \<and>
      (\<exists>m1. run [(e1, TaskSettles ?n (Invoked (Resolves d1 err1))),
                  (e2, TaskSettles ?n (Invoked Rejects))] (startWorkflow e m) = Some m1 \<and>
            isRunning (state m1) \<and> currentStep (state m1) = 1 \<and>
            map call_toolName (toolCalls (state m1)) = [''analyze_satellite_imagery''] \<and>
            map call_status (toolCalls (state m1)) = [CallPending]) \<and>
      (\<exists>m1. run [(e1, TaskSettles ?n (Invoked (Resolves d1 err1))),
                  (e2, TaskSettles ?n (Invoked (Resolves d2 err2)))] (startWorkflow e m) = Some m1 \<and>
            isRunning (state m1) \<and> currentStep (state m1) = 1 \<and>
            map call_toolName (toolCalls (state m1)) = [''analyze_satellite_imagery''] \<and>
            map call_status (toolCalls (state m1)) = [CallPending])"
    if r: "roster_ok ?c"
  proof -
    have a: "toolCalls (state (m0 \<lparr> state := analysisMetrics d2 err2 (state m0) \<rparr>)) = []"
      "isRunning (state (m0 \<lparr> state := analysisMetrics d2 err2 (state m0) \<rparr>))"
      using m0 by (simp_all add: analysisMetrics_fields)
    show ?thesis
      using first_step_started [OF r m0(1), of e1] first_step_started [OF r m0(1), of e2]
        first_step_started [OF r a(1), of e2] m0(2) a(2)
      by (simp add: rej res rej2 res2)
  qed
  have basic: "isRunning (state (startWorkflow e m)) = True \<and>
   startTime (state (startWorkflow e m)) = Some (now e) \<and>
   currentStep (state (startWorkflow e m)) = 0 \<and>
   toolCalls (state (startWorkflow e m)) = [] \<and>
   map agent_type (agents (state (startWorkflow e m))) =
     [Sentinel, Simulator, Negotiator, Executor, Audit] \<and>
   map agent_status (agents (state (startWorkflow e m))) = [Idle, Idle, Idle, Idle, Idle] \<and>
   map agent_confidence (agents (state (startWorkflow e m))) =
     [JNum 0, JNum 0, JNum 0, JNum 0, JNum 0] \<and>
   pendingApproval (startWorkflow e m) = pendingApproval m \<and>
   tasks (startWorkflow e m) = tasks m @ [AwaitWorkflowInit (agents (state m))]"
    by (simp add: startWorkflow_def MOCK_AGENTS_def)
  show ?thesis using basic begins by blast
qed

text \<open>Witness for C7: a start in the initial machine, whose first backend call is rejected.\<close>

theorem start_effect_witness:
  "roster_ok (agents (state initialMachine)) \<and>
   isRunning (state (startWorkflow \<lparr> now = 0, rnd = ''k3x'' \<rparr> initialMachine)) = True \<and>
   pendingApproval (startWorkflow \<lparr> now = 0, rnd = ''k3x'' \<rparr> initialMachine)
     = pendingApproval initialMachine \<and>
   (\<exists>m1. run [(\<lparr> now = 40, rnd = ''k3x'' \<rparr>,
                TaskSettles (length (tasks initialMachine)) (Invoked Rejects))]
              (startWorkflow \<lparr> now = 0, rnd = ''k3x'' \<rparr> initialMachine) = Some m1 \<and>
         isRunning (state m1) \<and> currentStep (state m1) = 1 \<and>
         map call_toolName (toolCalls (state m1)) = [''analyze_satellite_imagery''] \<and>
         map call_status (toolCalls (state m1)) = [CallPending])"
proof -
  have r: "roster_ok (agents (state initialMachine))"
    by (simp add: initialMachine_def initialState_def MOCK_AGENTS_def roster_ok_def)
  from start_effect [of "\<lparr> now = 0, rnd = ''k3x'' \<rparr>" initialMachine
      "\<lparr> now = 40, rnd = ''k3x'' \<rparr>"]
  show ?thesis using r by blast
qed

subsection \<open>Completion\<close>

text \<open>
  Claim C6 says that at the end of the last step the run becomes completed and
  \<open>timeToResolution\<close> is the elapsed time between start and now. In the session below the
  run starts at clock 0 and completes at clock 600000 (ten minutes later); the metric is not
  ten.
\<close>

theorem completion_constant_not_elapsed:
  "map_option (\<lambda>m. (isRunning (state m), startTime (state m), endTime (state m),
                     timeToResolution (metrics (state m)) = (600000 - 0) / 60000))
     (run session_completed initialMachine)
   = Some (False, Some 0, Some 600000, False)"
  by code_simp

text \<open>
  Claim C6, amended. When the delay after the last step (index 5) has elapsed, in the loop of
  \<open>startWorkflow\<close> as in the loop of \<open>handleApproval\<close>, the run stops running, \<open>endTime\<close>
  is set to now, and \<open>timeToResolution\<close> is set to the constant 4.2, which is positive and
  does not depend on the start time.
\<close>

theorem completion_effect:
  "resume e (AwaitDelay k c 5) Elapsed m = Some (completeWorkflow e m) \<and>
   isRunning (state (completeWorkflow e m)) = False \<and>
   endTime (state (completeWorkflow e m)) = Some (now e) \<and>
   timeToResolution (metrics (state (completeWorkflow e m))) = 4.2 \<and>
   0 < timeToResolution (metrics (state (completeWorkflow e m)))"
  by (simp add: runLoop_def WORKFLOW_STEPS_def completeWorkflow_def)

subsection \<open>The approval timeout\<close>

lemma runLoop_resume_keeps_gate:
  "pendingApproval (runLoop e ApprovalLoop c 4 m) = pendingApproval m"
  "timers (runLoop e ApprovalLoop c 4 m) = timers m"
  by (simp_all add: runLoop_def executeStep_def afterStep_def callLaunchIOAgent_call_def
      WORKFLOW_STEPS_def Let_def split: option.splits)

text \<open>Once a decision has been taken the request is gone and the timer it held is cleared;
  a second decision through the handler of the latest render changes nothing.\<close>

lemma decide_resolves_once:
  shows "pendingApproval (handleApproval e approved (Some request) c m) = None"
    "step e2 (HandleApproval approved2) (handleApproval e approved (Some request) c m)
       = Some (handleApproval e approved (Some request) c m)"
    "timeoutRef m = Some h \<Longrightarrow>
       step e2 (TimerFires h) (handleApproval e approved (Some request) c m) = None"
proof -
  show p: "pendingApproval (handleApproval e approved (Some request) c m) = None"
    by (cases approved) (simp_all add: handleApproval_def Let_def runLoop_resume_keeps_gate)
  show "step e2 (HandleApproval approved2) (handleApproval e approved (Some request) c m)
          = Some (handleApproval e approved (Some request) c m)"
    using p by (simp add: step_def handleApproval_def [of e2])
  show "step e2 (TimerFires h) (handleApproval e approved (Some request) c m) = None"
    if "timeoutRef m = Some h"
    using that
    by (cases approved)
       (simp_all add: handleApproval_def Let_def runLoop_resume_keeps_gate step_def
          clearTimeout_def map_of_cleared)
qed

text \<open>A second decision through a handler kept from the render in which the request was
  open is not stopped by the guard: after the approval of the session that waits at the
  approval step, the kept handler starts a second loop at index 4.\<close>

lemma stale_decision_starts_second_loop:
  "map_option (\<lambda>m. (map_option approval_status (pendingApproval m), currentStep (state m),
                     map call_toolName (toolCalls (state m)), length (tasks m)))
     (run (session_to_approval @
           [(\<lparr> now = 5690, rnd = ''d4e'' \<rparr>, HandleApproval True),
            (\<lparr> now = 5700, rnd = ''x3y'' \<rparr>,
             HandleApprovalStale True (pendingApproval (machine_after session_to_approval))
               (agents (state (machine_after session_to_approval))))])
        initialMachine)
   = Some (None, 5,
           [''analyze_satellite_imagery'', ''run_monte_carlo'', ''negotiate_terms'',
            ''reroute_shipments'', ''reroute_shipments''], 2)"
  by code_simp

text \<open>What the timer callback does in any machine: it marks an open request and the agent,
  and touches neither \<open>isRunning\<close> nor \<open>endTime\<close>.\<close>

lemma timeout_fires_effect:
  assumes "map_of (timers m) h = Some agentId"
  shows "\<exists>m1. step e (TimerFires h) m = Some m1 \<and>
           pendingApproval m1 =
             map_option (\<lambda>prev. prev \<lparr> approval_status := Timeout \<rparr>) (pendingApproval m) \<and>
           agents (state m1) =
             map (\<lambda>a. if agent_id a = agentId then a \<lparr> agent_status := Error \<rparr> else a)
                 (agents (state m)) \<and>
           isRunning (state m1) = isRunning (state m) \<and>
           endTime (state m1) = endTime (state m) \<and>
           tasks m1 = tasks m"
  using assms
  by (cases "pendingApproval m")
     (simp_all add: step_def timeoutCallback_def updateAgent_def spreadAgent_def)

text \<open>
  Claim C2 says that when the timeout fires without a decision the request's status becomes
  timeout, the requesting agent's status becomes error, and the run is no longer running.
  In the session below the timer fires five minutes after the request was opened: the status
  is timeout and the negotiator is in error, but \<open>isRunning\<close> is still true, no end time is
  set and nothing is in flight.
\<close>

theorem timeout_leaves_run_running:
  "map_option (\<lambda>m. (map_option approval_status (pendingApproval m),
                     map agent_status (agents (state m)),
                     isRunning (state m), endTime (state m), tasks m))
     (run session_timed_out initialMachine)
   = Some (Some Timeout, [Success, Success, Error, Idle, Idle], True, None, [])"
  by code_simp

text \<open>
  Claim C1 says that at most one of \<open>decide(true)\<close>, \<open>decide(false)\<close> and the timeout
  takes effect, and that a decision made after the timeout has fired leaves the status at
  timeout and neither resumes nor ends the run. In the session below \<open>handleApproval(true)\<close>
  is called one millisecond after the timer has fired: the request is cleared, the
  negotiator is set to success, and the step at index 4 is started.
\<close>

theorem decide_after_timeout_resumes:
  "map_option (\<lambda>m. (map_option approval_status (pendingApproval m),
                     map agent_status (agents (state m)),
                     isRunning (state m), currentStep (state m),
                     map call_toolName (toolCalls (state m)), length (tasks m)))
     (run (session_timed_out @ [(\<lparr> now = 304691, rnd = ''j7k'' \<rparr>, HandleApproval True)])
        initialMachine)
   = Some (None, [Success, Success, Success, Processing, Idle], True, 5,
           [''analyze_satellite_imagery'', ''run_monte_carlo'', ''negotiate_terms'',
            ''reroute_shipments''], 1)"
  by code_simp

subsection \<open>Reset and work in flight\<close>

text \<open>
  Claim C8 says that after \<open>reset()\<close> no work left in flight from the cancelled run ever
  changes the state. In the session below the run is reset while the first agent call is in
  flight: the task survives the reset, and when its promise settles the sentinel of the reset
  state is set to success with confidence 0.89.
\<close>

theorem late_settlement_mutates_reset_state:
  "map_option (\<lambda>m. (map agent_status (agents (state m)), isRunning (state m), length (tasks m)))
     (run session_reset_in_flight initialMachine)
   = Some ([Idle, Idle, Idle, Idle, Idle], False, 1) \<and>
   map_option (\<lambda>m. (map agent_status (agents (state m)), map agent_confidence (agents (state m)),
                     length (tasks m)))
     (run (session_reset_in_flight @
           [(\<lparr> now = 900, rnd = ''k3x'' \<rparr>, TaskSettles 0 (Invoked Rejects))]) initialMachine)
   = Some ([Success, Idle, Idle, Idle, Idle], [JNum 0.89, JNum 0, JNum 0, JNum 0, JNum 0], 1)"
  by code_simp

text \<open>
  Claim C8, amended. \<open>reset()\<close> cancels only the approval timer held in \<open>timeoutRef\<close>:
  after it that timer cannot fire. Agent invocations and step loops left in flight are
  neither cancelled nor tagged: every task stays in flight, and when an agent invocation of
  the cancelled run settles after the reset its update is applied to the reset state (the
  owning agent is set to success in the fresh agent list) and its loop goes on to the delay
  before the next step.
\<close>

theorem reset_cancels_only_timer:
  "tasks (resetWorkflow m) = tasks m \<and>
   (timeoutRef m = Some h \<longrightarrow> step e (TimerFires h) (resetWorkflow m) = None) \<and>
   (n < length (tasks m) \<and> tasks m ! n = AwaitAgentCall k c i cid aid tool t0 \<and>
    i < 6 \<and> i \<noteq> 3 \<longrightarrow>
      (\<exists>m1 conf.
         step e (TaskSettles n (Invoked out)) (resetWorkflow m) = Some m1 \<and>
         agents (state m1) =
           map (\<lambda>a. if agent_id a = aid
                     then a \<lparr> agent_status := Success, agent_confidence := conf,
                              agent_lastUpdate := Some (now e) \<rparr>
                     else a) MOCK_AGENTS \<and>
         toolCalls (state m1) = [] \<and>
         isRunning (state m1) = False \<and>
         tasks m1 = take n (tasks m) @ drop (Suc n) (tasks m) @ [AwaitDelay k c i]))"
proof -
  have a: "tasks (resetWorkflow m) = tasks m"
    by (simp add: resetWorkflow_def)
  have b: "step e (TimerFires h) (resetWorkflow m) = None" if "timeoutRef m = Some h"
    using that by (simp add: step_def resetWorkflow_def clearTimeout_def map_of_cleared)
  have c: "\<exists>m1 conf.
         step e (TaskSettles n (Invoked out)) (resetWorkflow m) = Some m1 \<and>
         agents (state m1) =
           map (\<lambda>a. if agent_id a = aid
                     then a \<lparr> agent_status := Success, agent_confidence := conf,
                              agent_lastUpdate := Some (now e) \<rparr>
                     else a) MOCK_AGENTS \<and>
         toolCalls (state m1) = [] \<and>
         isRunning (state m1) = False \<and>
         tasks m1 = take n (tasks m) @ drop (Suc n) (tasks m) @ [AwaitDelay k c i]"
    if n: "n < length (tasks m)" and t: "tasks m ! n = AwaitAgentCall k c i cid aid tool t0"
      and i: "i < 6" "i \<noteq> 3"
  proof -
    let ?s = "state (resetWorkflow m)"
    obtain r d conf where sh:
      "callLaunchIOAgent_settled e cid aid tool t0 out ?s =
         updateAgent aid \<lparr> upd_status = Some Success, upd_confidence = Some conf,
                            upd_lastUpdate = Some (now e) \<rparr>
           (updateToolCall cid \<lparr> upd_result = Some r, upd_call_status = Some CallSuccess,
                                  upd_duration = Some d \<rparr> ?s)"
      using settled_shape [of e cid aid tool t0 out ?s] by blast
    define s2 where "s2 = stepMetrics i (callLaunchIOAgent_settled e cid aid tool t0 out ?s)"
    define m1 where "m1 = afterStep k c i
        ((resetWorkflow m) \<lparr> tasks := take n (tasks m) @ drop (Suc n) (tasks m), state := s2 \<rparr>)"
    have st: "step e (TaskSettles n (Invoked out)) (resetWorkflow m) = Some m1"
      using n t by (simp add: step_def a m1_def s2_def)
    have fresh: "agents ?s = MOCK_AGENTS" "toolCalls ?s = []" "isRunning ?s = False"
      by (simp_all add: resetWorkflow_def)
    have ag: "agents s2 =
           map (\<lambda>a. if agent_id a = aid
                     then a \<lparr> agent_status := Success, agent_confidence := conf,
                              agent_lastUpdate := Some (now e) \<rparr>
                     else a) MOCK_AGENTS"
      unfolding s2_def stepMetrics_fields sh
      by (simp add: agents_updateAgent updateToolCall_fields spreadAgent_def fresh)
    have tc: "toolCalls s2 = []" "isRunning s2 = False"
      unfolding s2_def stepMetrics_fields sh
      by (simp_all add: updateAgent_fields updateToolCall_fields fresh)
    have m1s: "state m1 = s2"
      "tasks m1 = take n (tasks m) @ drop (Suc n) (tasks m) @ [AwaitDelay k c i]"
      by (simp_all add: m1_def afterStep_call [OF i])
    show ?thesis
      apply (rule exI [of _ m1])
      apply (rule exI [of _ conf])
      using st ag tc m1s by simp
  qed
  show ?thesis using a b c by blast
qed

text \<open>Witness for C8: the run whose first agent call is in flight (its task is the only one),
  and the run that waits at the approval step (its timer has handle 1).\<close>

theorem reset_cancels_only_timer_witness:
  "0 < length (tasks (machine_after session_call_in_flight)) \<and>
   tasks (machine_after session_call_in_flight) ! 0 =
     AwaitAgentCall StartLoop MOCK_AGENTS 0 ''call-40-k3x'' ''sentinel-001''
       ''analyze_satellite_imagery'' 40 \<and>
   timeoutRef (machine_after session_to_approval) = Some 1 \<and>
   step \<lparr> now = 4700, rnd = ''q8r'' \<rparr> (TimerFires 1)
        (resetWorkflow (machine_after session_to_approval)) = None \<and>
   (\<exists>m1 conf.
      step \<lparr> now = 900, rnd = ''k3x'' \<rparr> (TaskSettles 0 (Invoked Rejects))
           (resetWorkflow (machine_after session_call_in_flight)) = Some m1 \<and>
      agents (state m1) =
        map (\<lambda>a. if agent_id a = ''sentinel-001''
                  then a \<lparr> agent_status := Success, agent_confidence := conf,
                           agent_lastUpdate := Some 900 \<rparr>
                  else a) MOCK_AGENTS \<and>
      tasks m1 = [AwaitDelay StartLoop MOCK_AGENTS 0])"
proof -
  have n: "0 < length (tasks (machine_after session_call_in_flight))"
    by code_simp
  have t: "tasks (machine_after session_call_in_flight) ! 0 =
     AwaitAgentCall StartLoop MOCK_AGENTS 0 ''call-40-k3x'' ''sentinel-001''
       ''analyze_satellite_imagery'' 40"
    by code_simp
  have one: "tasks (machine_after session_call_in_flight) =
     [AwaitAgentCall StartLoop MOCK_AGENTS 0 ''call-40-k3x'' ''sentinel-001''
       ''analyze_satellite_imagery'' 40]"
    by code_simp
  have r: "timeoutRef (machine_after session_to_approval) = Some 1"
    by code_simp
  have i: "(0::nat) < 6" "(0::nat) \<noteq> 3" by simp_all
  from reset_cancels_only_timer [of "machine_after session_to_approval" 1
      "\<lparr> now = 4700, rnd = ''q8r'' \<rparr>"]
  have timer: "step \<lparr> now = 4700, rnd = ''q8r'' \<rparr> (TimerFires 1)
        (resetWorkflow (machine_after session_to_approval)) = None"
    using r by blast
  from reset_cancels_only_timer [of "machine_after session_call_in_flight" _
      "\<lparr> now = 900, rnd = ''k3x'' \<rparr>" 0 StartLoop MOCK_AGENTS 0 "''call-40-k3x''"
      "''sentinel-001''" "''analyze_satellite_imagery''" 40 Rejects] n t i
  obtain m1 conf where
    a: "step \<lparr> now = 900, rnd = ''k3x'' \<rparr> (TaskSettles 0 (Invoked Rejects))
           (resetWorkflow (machine_after session_call_in_flight)) = Some m1"
    and b: "agents (state m1) =
        map (\<lambda>a. if agent_id a = ''sentinel-001''
                  then a \<lparr> agent_status := Success, agent_confidence := conf,
                           agent_lastUpdate := Some (now \<lparr> now = 900, rnd = ''k3x'' \<rparr>) \<rparr>
                  else a) MOCK_AGENTS"
    and c: "tasks m1 = take 0 (tasks (machine_after session_call_in_flight)) @
                       drop (Suc 0) (tasks (machine_after session_call_in_flight)) @
                       [AwaitDelay StartLoop MOCK_AGENTS 0]"
    by blast
  have late: "\<exists>m1 conf.
      step \<lparr> now = 900, rnd = ''k3x'' \<rparr> (TaskSettles 0 (Invoked Rejects))
           (resetWorkflow (machine_after session_call_in_flight)) = Some m1 \<and>
      agents (state m1) =
        map (\<lambda>a. if agent_id a = ''sentinel-001''
                  then a \<lparr> agent_status := Success, agent_confidence := conf,
                           agent_lastUpdate := Some 900 \<rparr>
                  else a) MOCK_AGENTS \<and>
      tasks m1 = [AwaitDelay StartLoop MOCK_AGENTS 0]"
    apply (rule exI [of _ m1])
    apply (rule exI [of _ conf])
    using a b c one by simp
  show ?thesis using n t r timer late by blast
qed

end
